theory Spec2Isabelle
  imports Complex_Main
begin

section \<open>JavaScript strings\<close>

text \<open>
  A string of the analyzer is a sequence of UTF-16 code units, here natural numbers.
  The six Esperanto letters with a diacritic are single code units of the Latin
  Extended-A block (the sources are in composed form): U+0109, U+011D, U+0135, U+0125,
  U+015D, U+016D, each one above its capital.
\<close>

type_synonym jsstring = "nat list"

definition lit :: "string \<Rightarrow> jsstring" where
  "lit cs = map of_char cs"

abbreviation c_circ :: nat where "c_circ \<equiv> 0x109"
abbreviation g_circ :: nat where "g_circ \<equiv> 0x11D"
abbreviation j_circ :: nat where "j_circ \<equiv> 0x135"
abbreviation h_circ :: nat where "h_circ \<equiv> 0x125"
abbreviation s_circ :: nat where "s_circ \<equiv> 0x15D"
abbreviation u_breve :: nat where "u_breve \<equiv> 0x16D"

definition esperantoLower :: "nat list" where
  "esperantoLower = [c_circ, g_circ, j_circ, h_circ, s_circ, u_breve]"

definition esperantoUpper :: "nat list" where
  "esperantoUpper = [0x108, 0x11C, 0x134, 0x124, 0x15C, 0x16C]"

definition isAsciiLower :: "nat \<Rightarrow> bool" where
  "isAsciiLower c = (97 \<le> c \<and> c \<le> 122)"

definition isAsciiUpper :: "nat \<Rightarrow> bool" where
  "isAsciiUpper c = (65 \<le> c \<and> c \<le> 90)"

text \<open>The class \<^verbatim>\<open>[a-zA-Z...]\<close> with the twelve Esperanto letters.\<close>

definition isLetter :: "nat \<Rightarrow> bool" where
  "isLetter c = (isAsciiLower c \<or> isAsciiUpper c \<or> c \<in> set esperantoLower \<or> c \<in> set esperantoUpper)"

text \<open>The class \<^verbatim>\<open>[a-z...]\<close> with the six small Esperanto letters.\<close>

definition isLowerLetter :: "nat \<Rightarrow> bool" where
  "isLowerLetter c = (isAsciiLower c \<or> c \<in> set esperantoLower)"

text \<open>White space of \<^verbatim>\<open>trim\<close> and of \<^verbatim>\<open>\s\<close>: the same set of code units.\<close>

definition isWhiteSpace :: "nat \<Rightarrow> bool" where
  "isWhiteSpace c =
     (c \<in> set [9, 10, 11, 12, 13, 32, 0xA0, 0x1680, 0x2028, 0x2029, 0x202F, 0x205F, 0x3000, 0xFEFF]
      \<or> (0x2000 \<le> c \<and> c \<le> 0x200A))"

text \<open>
  \<^verbatim>\<open>toLowerCase\<close>: capitals of the two alphabets go to their small letters, the
  Kelvin sign U+212A to k, and U+0130 to i followed by U+0307. Every other code unit
  is kept: its real image is never a letter a-z nor an Esperanto letter, which is all
  the analyzers compare with.
\<close>

definition lowerUnit :: "nat \<Rightarrow> nat list" where
  "lowerUnit c =
     (if isAsciiUpper c then [c + 32]
      else if c \<in> set esperantoUpper then [c + 1]
      else if c = 0x212A then [107]
      else if c = 0x130 then [105, 0x307]
      else [c])"

definition toLowerCase :: "jsstring \<Rightarrow> jsstring" where
  "toLowerCase w = concat (map lowerUnit w)"

text \<open>
  Matching under the flags \<^verbatim>\<open>iu\<close> compares simple case foldings: next to the
  capitals, the Kelvin sign folds to k and the long s U+017F to s.
\<close>

definition foldUnit :: "nat \<Rightarrow> nat" where
  "foldUnit c =
     (if isAsciiUpper c then c + 32
      else if c \<in> set esperantoUpper then c + 1
      else if c = 0x212A then 107
      else if c = 0x17F then 115
      else c)"

definition foldCase :: "jsstring \<Rightarrow> jsstring" where
  "foldCase w = map foldUnit w"

definition trim :: "jsstring \<Rightarrow> jsstring" where
  "trim w = rev (dropWhile isWhiteSpace (rev (dropWhile isWhiteSpace w)))"

definition endsWith :: "jsstring \<Rightarrow> jsstring \<Rightarrow> bool" where
  "endsWith w s = (length s \<le> length w \<and> drop (length w - length s) w = s)"

definition startsWith :: "jsstring \<Rightarrow> jsstring \<Rightarrow> bool" where
  "startsWith w s = (take (length s) w = s)"

definition includesStr :: "jsstring \<Rightarrow> jsstring \<Rightarrow> bool" where
  "includesStr w s = list_ex (\<lambda>i. startsWith (drop i w) s) [0 ..< Suc (length w)]"

text \<open>\<^verbatim>\<open>w.slice(0, -n)\<close> for a positive \<open>n\<close>.\<close>

definition sliceEnd :: "jsstring \<Rightarrow> nat \<Rightarrow> jsstring" where
  "sliceEnd w n = take (length w - n) w"

text \<open>The four expansions of \<^verbatim>\<open>(j?n?)\<close>.\<close>

definition jn :: "jsstring list" where
  "jn = [lit ''jn'', lit ''j'', lit ''n'', []]"

text \<open>
  A pattern \<^verbatim>\<open>^[letters]{n,}(s1|s2|...)$\<close>: some alternative ends the word and at
  least \<open>n\<close> letters, and nothing else, stand before it.
\<close>

definition lettersThen :: "nat \<Rightarrow> jsstring list \<Rightarrow> jsstring \<Rightarrow> bool" where
  "lettersThen n sufs w =
     list_ex (\<lambda>s. endsWith w s \<and> n \<le> length w - length s
                  \<and> list_all isLetter (sliceEnd w (length s))) sufs"

section \<open>JavaScript numbers\<close>

text \<open>
  A number of the language is a double. A confidence is held as the decimal fraction
  that prints it (4/5 for 0.8): the dispatcher only adds the literals 0.2 and 0.3 to 0.5
  and to 0.7, and these sums are the doubles of 0.7, 0.8 and 1 (\<open>confidence_decimals\<close>
  below), so that the decimal names the double, which is \<open>toDouble\<close> of it. The
  statistics add confidences up and divide the sum, so they are computed on the
  doubles themselves, given by their exact rational values.

  \<open>toDouble\<close> rounds a rational to the nearest double, ties to the even significand:
  the significand has 53 bits and the exponent is at least -1022 (below, the spacing
  stays that of the subnormal numbers). Infinity is left out: no sum of confidences
  comes near the largest double.
\<close>

text \<open>The exponent of a positive \<open>x\<close>: the \<open>e\<close> with \<open>2^e \<le> x < 2^(e+1)\<close>.\<close>

function exponentUp :: "rat \<Rightarrow> int" where
  "exponentUp x = (if 2 \<le> x then exponentUp (x / 2) + 1 else 0)"
  by pat_completeness auto
termination
  by (relation "measure (\<lambda>x. nat \<lfloor>x\<rfloor>)") (auto, linarith)

declare exponentUp.simps [simp del]

function exponentDown :: "rat \<Rightarrow> int" where
  "exponentDown x = (if 0 < x \<and> x < 1 then exponentDown (2 * x) - 1 else 0)"
  by pat_completeness auto
termination
proof (relation "measure (\<lambda>x. nat \<lfloor>1 / x\<rfloor>)")
  show "wf (measure (\<lambda>x::rat. nat \<lfloor>1 / x\<rfloor>))" by simp
next
  fix x :: rat
  assume a: "0 < x \<and> x < 1"
  define y where "y = 1 / x"
  have y1: "1 < y" using a by (simp add: y_def)
  then have f1: "1 \<le> \<lfloor>y\<rfloor>" by linarith
  have "y < of_int \<lfloor>y\<rfloor> + 1" by linarith
  also have "\<dots> \<le> 2 * of_int \<lfloor>y\<rfloor>" using f1 by linarith
  finally have "y / 2 < of_int \<lfloor>y\<rfloor>" by simp
  then have "\<lfloor>y / 2\<rfloor> < \<lfloor>y\<rfloor>" by (simp add: floor_less_iff)
  moreover have "1 / (2 * x) = y / 2" by (simp add: y_def)
  ultimately show "(2 * x, x) \<in> measure (\<lambda>x. nat \<lfloor>1 / x\<rfloor>)"
    using f1 by (simp add: y_def mult.commute)
qed

declare exponentDown.simps [simp del]

definition exponent :: "rat \<Rightarrow> int" where
  "exponent x = (if 1 \<le> x then exponentUp x else exponentDown x)"

text \<open>The distance between the doubles around a positive \<open>x\<close>.\<close>

definition ulp :: "rat \<Rightarrow> rat" where
  "ulp x = 2 powi (max (exponent x) (- 1022) - 52)"

definition roundHalfEven :: "rat \<Rightarrow> int" where
  "roundHalfEven q =
     (if q - of_int \<lfloor>q\<rfloor> < 1 / 2 then \<lfloor>q\<rfloor>
      else if 1 / 2 < q - of_int \<lfloor>q\<rfloor> then \<lfloor>q\<rfloor> + 1
      else if even \<lfloor>q\<rfloor> then \<lfloor>q\<rfloor> else \<lfloor>q\<rfloor> + 1)"

definition toDouble :: "rat \<Rightarrow> rat" where
  "toDouble x = sgn x * (of_int (roundHalfEven (\<bar>x\<bar> / ulp \<bar>x\<bar>)) * ulp \<bar>x\<bar>)"

text \<open>The sum and the quotient of two doubles.\<close>

definition addDouble :: "rat \<Rightarrow> rat \<Rightarrow> rat" where
  "addDouble a b = toDouble (a + b)"

definition divDouble :: "rat \<Rightarrow> rat \<Rightarrow> rat" where
  "divDouble a b = toDouble (a / b)"

section \<open>Data model\<close>

datatype PartOfSpeech =
  Noun | Verb | Adjective | Adverb | Pronoun | Preposition | Conjunction
  | Interjection | Article | Numeral | Unknown | Undefined

datatype VerbTense = present | past | future | conditional_tense | infinitive_tense

datatype VerbMood = indicative | imperative | conditional | infinitive | participle

record AgreementMarkers =
  plural :: bool
  accusative :: bool

text \<open>
  The feature record with the fields every analyzer fills (\<open>root\<close>, \<open>isPlural\<close>,
  \<open>isAccusative\<close>) and those of the verb and the adjective. The further flags of the
  pronoun, numeral, preposition, adverb, conjunction and interjection analyzers are
  derived from the same word after the match and are not part of this development.
\<close>

record MorphologicalFeatures =
  isPlural :: bool
  isAccusative :: bool
  tense :: "VerbTense option"
  mood :: "VerbMood option"
  agreement :: "AgreementMarkers option"
  root :: "jsstring option"

record AnalysisOptions =
  includeFeatures :: "bool option"
  strictMode :: "bool option"
  optimized :: "bool option"

datatype error = Error string | InvalidArticleError string

definition getDefaultOptions :: AnalysisOptions where
  "getDefaultOptions = \<lparr>includeFeatures = Some True, strictMode = Some False, optimized = Some True\<rparr>"

definition noOptions :: AnalysisOptions where
  "noOptions = \<lparr>includeFeatures = None, strictMode = None, optimized = None\<rparr>"

definition getEmptyMorphology :: MorphologicalFeatures where
  "getEmptyMorphology =
     \<lparr>isPlural = False, isAccusative = False, tense = None, mood = None,
      agreement = None, root = None\<rparr>"

section \<open>The part-of-speech analyzers\<close>

subsection \<open>Base class\<close>

definition Base_checkPlural :: "jsstring \<Rightarrow> bool" where
  "Base_checkPlural w =
     (let baseWord = (if endsWith w (lit ''n'') then sliceEnd w 1 else w)
      in endsWith baseWord (lit ''j''))"

definition Base_checkAccusative :: "jsstring \<Rightarrow> bool" where
  "Base_checkAccusative w = endsWith w (lit ''n'')"

text \<open>
  \<open>extractMorphology\<close> of the base class, given the two checks of the subclass: the
  empty features unless \<open>includeFeatures\<close> is set and true.
\<close>

definition Base_extractMorphology ::
  "(jsstring \<Rightarrow> bool) \<Rightarrow> (jsstring \<Rightarrow> bool) \<Rightarrow> jsstring \<Rightarrow> AnalysisOptions \<Rightarrow> MorphologicalFeatures" where
  "Base_extractMorphology checkPlural checkAccusative w options =
     (if includeFeatures options \<noteq> Some True then getEmptyMorphology
      else getEmptyMorphology\<lparr>isPlural := checkPlural w, isAccusative := checkAccusative w\<rparr>)"

subsection \<open>Noun\<close>

definition Noun_match :: "jsstring \<Rightarrow> bool" where
  "Noun_match w = lettersThen 2 (map (\<lambda>e. lit ''o'' @ e) jn) w"

definition Noun_extractRoot :: "jsstring \<Rightarrow> jsstring" where
  "Noun_extractRoot w =
     (let r1 = (if endsWith w (lit ''n'') then sliceEnd w 1 else w);
          r2 = (if endsWith r1 (lit ''j'') then sliceEnd r1 1 else r1);
          r3 = (if endsWith r2 (lit ''o'') then sliceEnd r2 1 else r2)
      in r3)"

definition Noun_extractMorphology :: "jsstring \<Rightarrow> AnalysisOptions \<Rightarrow> error + MorphologicalFeatures" where
  "Noun_extractMorphology w options =
     (let baseMorphology = Base_extractMorphology Base_checkPlural Base_checkAccusative w options
      in if \<not> Noun_match w then Inl (Error ''Word does not match noun pattern'')
         else Inr (baseMorphology\<lparr>root := Some (Noun_extractRoot w)\<rparr>))"

subsection \<open>Verb\<close>

definition VERB_ENDINGS :: "jsstring list" where
  "VERB_ENDINGS = map lit [''i'', ''as'', ''is'', ''os'', ''us'', ''u'']"

definition PARTICIPLE_ENDINGS :: "jsstring list" where
  "PARTICIPLE_ENDINGS = map lit
     [''anta'', ''ante'', ''antaj'', ''antajn'', ''antan'',
      ''inta'', ''inte'', ''intaj'', ''intajn'', ''intan'',
      ''onta'', ''onte'', ''ontaj'', ''ontajn'', ''ontan'',
      ''ata'', ''ate'', ''ataj'', ''atajn'', ''atan'',
      ''ita'', ''ite'', ''itaj'', ''itajn'', ''itan'',
      ''ota'', ''ote'', ''otaj'', ''otajn'', ''otan'']"

definition ALL_ENDINGS :: "jsstring list" where
  "ALL_ENDINGS = VERB_ENDINGS @ PARTICIPLE_ENDINGS"

definition Verb_match :: "jsstring \<Rightarrow> bool" where
  "Verb_match w = lettersThen 2 ALL_ENDINGS w"

definition isParticiple :: "jsstring \<Rightarrow> jsstring option \<Rightarrow> bool" where
  "isParticiple w tenseMarker =
     (let participlePatterns =
        (case tenseMarker of
           Some t \<Rightarrow> [t @ lit ''a'', t @ lit ''e'', t @ lit ''aj'', t @ lit ''ajn'', t @ lit ''an'']
         | None \<Rightarrow> PARTICIPLE_ENDINGS)
      in list_ex (\<lambda>pattern. endsWith w pattern) participlePatterns)"

definition extractTense :: "jsstring \<Rightarrow> VerbTense" where
  "extractTense w =
     (let normalizedWord = toLowerCase w in
      if endsWith normalizedWord (lit ''i'') then infinitive_tense
      else if endsWith normalizedWord (lit ''us'') then conditional_tense
      else if endsWith normalizedWord (lit ''as'') \<or> isParticiple normalizedWord (Some (lit ''ant''))
        then present
      else if endsWith normalizedWord (lit ''is'') \<or> isParticiple normalizedWord (Some (lit ''int''))
        then past
      else if endsWith normalizedWord (lit ''os'') \<or> isParticiple normalizedWord (Some (lit ''ont''))
        then future
      else present)"

definition extractMood :: "jsstring \<Rightarrow> VerbMood" where
  "extractMood w =
     (let normalizedWord = toLowerCase w in
      if endsWith normalizedWord (lit ''i'') then infinitive
      else if endsWith normalizedWord (lit ''us'') then conditional
      else if endsWith normalizedWord (lit ''u'') then imperative
      else if isParticiple normalizedWord None then participle
      else indicative)"

text \<open>The loop over \<open>ALL_ENDINGS\<close>: the first ending that ends the word is cut off.\<close>

fun stripFirstEnding :: "jsstring list \<Rightarrow> jsstring \<Rightarrow> jsstring" where
  "stripFirstEnding [] w = w"
| "stripFirstEnding (ending # rest) w =
     (if endsWith w ending then sliceEnd w (length ending) else stripFirstEnding rest w)"

definition Verb_extractRoot :: "jsstring \<Rightarrow> jsstring" where
  "Verb_extractRoot w = stripFirstEnding ALL_ENDINGS (toLowerCase w)"

definition Verb_checkPlural :: "jsstring \<Rightarrow> bool" where
  "Verb_checkPlural w =
     (let normalizedWord = toLowerCase w in
      if isParticiple normalizedWord None
      then endsWith normalizedWord (lit ''aj'') \<or> endsWith normalizedWord (lit ''ajn'')
      else False)"

definition Verb_checkAccusative :: "jsstring \<Rightarrow> bool" where
  "Verb_checkAccusative w =
     (let normalizedWord = toLowerCase w in
      if isParticiple normalizedWord None then endsWith normalizedWord (lit ''n'') else False)"

definition Verb_extractMorphology :: "jsstring \<Rightarrow> AnalysisOptions \<Rightarrow> error + MorphologicalFeatures" where
  "Verb_extractMorphology w options =
     (let baseMorphology = Base_extractMorphology Verb_checkPlural Verb_checkAccusative w options
      in if \<not> Verb_match w then Inl (Error ''Word does not match verb pattern'')
         else Inr (baseMorphology\<lparr>tense := Some (extractTense w), mood := Some (extractMood w),
                                  root := Some (Verb_extractRoot w)\<rparr>))"

subsection \<open>Adjective\<close>

definition Adjective_match :: "jsstring \<Rightarrow> bool" where
  "Adjective_match w = lettersThen 2 (map (\<lambda>e. lit ''a'' @ e) jn) w"

definition Adjective_extractRoot :: "jsstring \<Rightarrow> jsstring" where
  "Adjective_extractRoot w =
     (let r0 = toLowerCase w;
          r1 = (if endsWith r0 (lit ''n'') then sliceEnd r0 1 else r0);
          r2 = (if endsWith r1 (lit ''j'') then sliceEnd r1 1 else r1);
          r3 = (if endsWith r2 (lit ''a'') then sliceEnd r2 1 else r2)
      in r3)"

definition Adjective_extractMorphology :: "jsstring \<Rightarrow> AnalysisOptions \<Rightarrow> error + MorphologicalFeatures" where
  "Adjective_extractMorphology w options =
     (let baseMorphology = Base_extractMorphology Base_checkPlural Base_checkAccusative w options
      in if \<not> Adjective_match w then Inl (Error ''Word does not match adjective pattern'')
         else Inr (baseMorphology
                    \<lparr>agreement := Some \<lparr>plural = isPlural baseMorphology,
                                         accusative = isAccusative baseMorphology\<rparr>,
                     root := Some (Adjective_extractRoot w)\<rparr>))"

subsection \<open>Adverb\<close>

definition SPECIAL_ADVERBS :: "jsstring list" where
  "SPECIAL_ADVERBS =
     [lit ''nun'', lit ''tuj'', lit ''jam'', lit ''ankora'' @ [u_breve], lit ''balda'' @ [u_breve],
      lit ''hiera'' @ [u_breve], lit ''hodia'' @ [u_breve], lit ''morga'' @ [u_breve],
      lit ''tre'', lit ''pli'', lit ''plej'', lit ''tro'', lit ''nur'', lit ''e'' @ [c_circ],
      lit ''preska'' @ [u_breve], lit ''apena'' @ [u_breve], [c_circ] @ lit ''irka'' @ [u_breve],
      lit ''jen'', lit ''for'', lit ''hejm'', lit ''eksteren'', lit ''supren'', lit ''malsupren'',
      lit ''anta'' @ [u_breve] @ lit ''en'', lit ''malanta'' @ [u_breve] @ lit ''en'',
      lit ''dekstren'', lit ''maldekstren'', lit ''ien'', lit ''nien'', lit ''tien'',
      [c_circ] @ lit ''ien'']"

definition hasValidEsperantoCharacters :: "jsstring \<Rightarrow> bool" where
  "hasValidEsperantoCharacters w = (toLowerCase w \<noteq> [] \<and> list_all isLowerLetter (toLowerCase w))"

text \<open>Three code units in a row of a class, and a doubled code unit of a class.\<close>

fun threeInARow :: "(nat \<Rightarrow> bool) \<Rightarrow> jsstring \<Rightarrow> bool" where
  "threeInARow p (a # b # c # r) = ((p a \<and> p b \<and> p c) \<or> threeInARow p (b # c # r))"
| "threeInARow p r = False"

fun hasDouble :: "(nat \<Rightarrow> bool) \<Rightarrow> jsstring \<Rightarrow> bool" where
  "hasDouble p (a # b # r) = ((p a \<and> a = b) \<or> hasDouble p (b # r))"
| "hasDouble p r = False"

text \<open>The class \<^verbatim>\<open>[^aeiou...]\<close>: anything but the five vowels and the six Esperanto letters.\<close>

definition notVowelClass :: "nat \<Rightarrow> bool" where
  "notVowelClass c = (c \<notin> set (lit ''aeiou'' @ esperantoLower))"

definition hasValidEsperantoPhonology :: "jsstring \<Rightarrow> bool" where
  "hasValidEsperantoPhonology w =
     (let normalizedWord = toLowerCase w in
      if length normalizedWord < 4 then False
      else if list_ex (\<lambda>c. c \<in> set (lit ''qwxy'')) normalizedWord then False
      else if endsWith normalizedWord (lit ''ouse'')
              \<or> includesStr normalizedWord (lit ''tion'')
              \<or> startsWith normalizedWord (lit ''th'')
              \<or> includesStr normalizedWord (lit ''ght'')
              \<or> endsWith normalizedWord (lit ''ple'')
              \<or> endsWith normalizedWord (lit ''ble'')
              \<or> threeInARow notVowelClass normalizedWord then False
      else if hasDouble (\<lambda>c. c \<in> set (lit ''bcdfghjklmnpqrstvwxyz'')) normalizedWord then False
      else True)"

definition Adverb_matchRegex :: "jsstring \<Rightarrow> bool" where
  "Adverb_matchRegex w =
     (let f = foldCase w in
      f \<in> set SPECIAL_ADVERBS
      \<or> (endsWith f (lit ''e'') \<and> 2 \<le> length f - 1 \<and> list_all isLowerLetter (sliceEnd f 1)))"

definition isSpecialAdverb :: "jsstring \<Rightarrow> bool" where
  "isSpecialAdverb w = (toLowerCase w \<in> set SPECIAL_ADVERBS)"

definition Adverb_match :: "jsstring \<Rightarrow> bool" where
  "Adverb_match w =
     (if \<not> Adverb_matchRegex w then False
      else if isSpecialAdverb w then True
      else hasValidEsperantoCharacters w \<and> hasValidEsperantoPhonology w)"

definition Adverb_extractRoot :: "jsstring \<Rightarrow> jsstring" where
  "Adverb_extractRoot w =
     (let normalizedWord = toLowerCase w in
      if isSpecialAdverb normalizedWord then normalizedWord
      else if endsWith normalizedWord (lit ''e'') then sliceEnd normalizedWord 1
      else normalizedWord)"

definition Adverb_extractMorphology :: "jsstring \<Rightarrow> AnalysisOptions \<Rightarrow> error + MorphologicalFeatures" where
  "Adverb_extractMorphology w options =
     (let baseMorphology = Base_extractMorphology (\<lambda>_. False) (\<lambda>_. False) w options
      in if \<not> Adverb_match w then Inl (Error ''Word does not match adverb pattern'')
         else Inr (baseMorphology\<lparr>root := Some (Adverb_extractRoot w),
                                  isPlural := False, isAccusative := False\<rparr>))"

subsection \<open>Article\<close>

definition Article_match :: "jsstring \<Rightarrow> bool" where
  "Article_match w = (foldCase w = lit ''la'')"

definition Article_extractMorphology :: "jsstring \<Rightarrow> AnalysisOptions \<Rightarrow> error + MorphologicalFeatures" where
  "Article_extractMorphology w options =
     (let baseMorphology = Base_extractMorphology (\<lambda>_. False) (\<lambda>_. False) w options
      in if \<not> Article_match w then Inl (Error ''Word does not match article pattern'')
         else Inr (baseMorphology\<lparr>isPlural := False, isAccusative := False,
                                  root := Some (lit ''la'')\<rparr>))"

subsection \<open>Conjunction\<close>

definition CONJUNCTIONS :: "jsstring list" where
  "CONJUNCTIONS =
     [lit ''anta'' @ [u_breve] @ lit '' kiam'', lit ''anta'' @ [u_breve] @ lit '' ol'',
      lit ''a'' @ [u_breve], [c_circ] @ lit ''ar'', [c_circ] @ lit ''u'', lit ''k'', lit ''kaj'',
      lit ''ka'' @ [u_breve], lit ''ke'', lit ''kial'', lit ''kiam'', lit ''kie'', lit ''kiel'',
      lit ''kune kun'', lit ''kvankam'', lit ''kvaza'' @ [u_breve], lit ''minus'', lit ''nek'',
      lit ''ol'', lit ''plus'', lit ''se'', lit ''sed'', lit ''tial'']"

definition Conjunction_match :: "jsstring \<Rightarrow> bool" where
  "Conjunction_match w = (foldCase w \<in> set CONJUNCTIONS)"

definition Conjunction_extractMorphology :: "jsstring \<Rightarrow> AnalysisOptions \<Rightarrow> error + MorphologicalFeatures" where
  "Conjunction_extractMorphology w options =
     (let baseMorphology = Base_extractMorphology (\<lambda>_. False) (\<lambda>_. False) w options
      in if \<not> Conjunction_match w then Inl (Error ''Word does not match conjunction pattern'')
         else Inr (baseMorphology\<lparr>isPlural := False, isAccusative := False,
                                  root := Some (toLowerCase w)\<rparr>))"

subsection \<open>Interjection\<close>

definition INTERJECTIONS :: "jsstring list" where
  "INTERJECTIONS =
     [lit ''a'' @ [h_circ] @ lit ''!'', lit ''aj!'', lit ''ba!'', lit ''baf!'', lit ''baj!'',
      lit ''be!'', lit ''bis!'', lit ''diable!'', lit ''ek!'', lit ''fi!'', lit ''fu!'',
      [g_circ] @ lit ''is!'', lit ''ha!'', lit ''ha lo!'', lit ''he!'', lit ''hej!'', lit ''ho!'',
      lit ''ho ve!'', lit ''hoj!'', lit ''hola!'', lit ''hu!'', lit ''hup!'', lit ''hura!'',
      lit ''lo!'', lit ''lu lu!'', lit ''nu!'', lit ''uf!'', lit ''up!'', [u_breve] @ lit ''a!'',
      lit ''ve!'', lit ''volapuka'' @ [j_circ] @ lit ''o!'', lit ''jen'']"

definition Interjection_match :: "jsstring \<Rightarrow> bool" where
  "Interjection_match w =
     (let normalizedWord = toLowerCase w
      in list_ex (\<lambda>interjection. toLowerCase interjection = normalizedWord) INTERJECTIONS)"

definition Interjection_extractMorphology :: "jsstring \<Rightarrow> AnalysisOptions \<Rightarrow> error + MorphologicalFeatures" where
  "Interjection_extractMorphology w options =
     (let baseMorphology = Base_extractMorphology (\<lambda>_. False) (\<lambda>_. False) w options
      in if \<not> Interjection_match w then Inl (Error ''Word does not match interjection pattern'')
         else Inr (baseMorphology\<lparr>isPlural := False, isAccusative := False,
                                  root := Some (toLowerCase w)\<rparr>))"

subsection \<open>Preposition\<close>

definition PREPOSITIONS :: "jsstring list" where
  "PREPOSITIONS =
     [lit ''al'', lit ''anstata'' @ [u_breve], lit ''anta'' @ [u_breve], lit ''apud'', lit ''ce'',
      [c_circ] @ lit ''e'', [c_circ] @ lit ''irka'' @ [u_breve], lit ''da'', lit ''de'', lit ''dum'',
      lit ''ekster'', lit ''el'', lit ''en'', lit ''estas'', lit ''for'', [g_circ] @ lit ''is'',
      lit ''inter'', lit ''je'', lit ''kontra'' @ [u_breve], lit ''krom'', lit ''kun'',
      lit ''la'' @ [u_breve], lit ''malgra'' @ [u_breve], lit ''per'', lit ''po'', lit ''por'',
      lit ''post'', lit ''preter'', lit ''pri'', lit ''pro'', lit ''sen'', lit ''sub'', lit ''super'',
      lit ''sur'', lit ''tra'', lit ''trans'', [c_circ] @ lit ''u'']"

definition COMPOUND_PREPOSITIONS :: "jsstring list" where
  "COMPOUND_PREPOSITIONS =
     [lit ''anstata'' @ [u_breve] @ lit '' ol'', lit ''dank'' @ [39] @ lit '' al'', lit ''danke al'',
      lit ''kune kun'', lit ''rilate al'', lit ''spite al'', lit ''nome pri'', lit ''koncerne pri'']"

definition Preposition_match :: "jsstring \<Rightarrow> bool" where
  "Preposition_match w = (foldCase w \<in> set (PREPOSITIONS @ COMPOUND_PREPOSITIONS))"

definition Preposition_extractMorphology :: "jsstring \<Rightarrow> AnalysisOptions \<Rightarrow> error + MorphologicalFeatures" where
  "Preposition_extractMorphology w options =
     (let baseMorphology = Base_extractMorphology (\<lambda>_. False) (\<lambda>_. False) w options
      in if \<not> Preposition_match w then Inl (Error ''Word does not match preposition pattern'')
         else Inr (baseMorphology\<lparr>isPlural := False, isAccusative := False,
                                  root := Some (toLowerCase w)\<rparr>))"

subsection \<open>Suffix patterns\<close>

text \<open>
  A pattern such as \<^verbatim>\<open>/a(j?n?)$/\<close> is the list of the strings it can match at the
  end of a word, longest first; \<open>matchSuffix\<close> gives the matched text, if any.
\<close>

fun matchSuffix :: "jsstring list \<Rightarrow> jsstring \<Rightarrow> jsstring option" where
  "matchSuffix [] w = None"
| "matchSuffix (s # ss) w = (if endsWith w s then Some s else matchSuffix ss w)"

definition withJN :: "jsstring \<Rightarrow> jsstring list" where
  "withJN p = map (\<lambda>e. p @ e) jn"

subsection \<open>Numeral\<close>

definition BASIC_NUMBERS :: "jsstring list" where
  "BASIC_NUMBERS =
     [lit ''nul'', lit ''unu'', lit ''du'', lit ''tri'', lit ''kvar'', lit ''kvin'', lit ''ses'',
      lit ''sep'', lit ''ok'', lit ''na'' @ [u_breve], lit ''dek'', lit ''cent'', lit ''mil'',
      lit ''milion'', lit ''miliard'']"

definition SPECIAL_NUMBERS :: "jsstring list" where
  "SPECIAL_NUMBERS =
     [lit ''amba'' @ [u_breve], lit ''paro'', lit ''duopo'', lit ''trio'', lit ''kvarteto'',
      lit ''dekumo'', lit ''pecento'', lit ''promilo'']"

text \<open>
  \<^verbatim>\<open>(nul|unu|...)+\<close>: the word is one basic number, or a basic number followed by
  a word of the same kind. A basic number is not empty, so the rest is shorter.
\<close>

function basicNumbersPlus :: "jsstring \<Rightarrow> bool" where
  "basicNumbersPlus w =
     list_ex (\<lambda>b. if b \<noteq> [] \<and> startsWith w b
                  then (if length b = length w then True else basicNumbersPlus (drop (length b) w))
                  else False) BASIC_NUMBERS"
  by pat_completeness auto
termination
proof (relation "measure length")
  show "wf (measure length)" by simp
next
  fix w b :: jsstring
  assume "b \<noteq> [] \<and> startsWith w b" and "length b \<noteq> length w"
  then have b: "b \<noteq> []" and t: "take (length b) w = b"
    by (simp_all add: startsWith_def)
  from t have "length (take (length b) w) = length b" by simp
  then have "length b \<le> length w" by simp
  with b have "0 < length b \<and> length b \<le> length w" by simp
  then show "(drop (length b) w, w) \<in> measure length" by (cases b) auto
qed

declare basicNumbersPlus.simps [simp del]

definition numeralSuffixes :: "jsstring list" where
  "numeralSuffixes =
     withJN (lit ''a'') @ [lit ''e''] @ withJN (lit ''on'')
     @ withJN (lit ''obla'') @ withJN (lit ''oble'')
     @ withJN (lit ''opa'') @ withJN (lit ''ope'') @ [[]]"

text \<open>
  The pattern joins the special words with \<^verbatim>\<open>|\<close> and appends \<^verbatim>\<open>(j?n?)?\<close>, which
  therefore belongs to the last special word alone.
\<close>

definition Numeral_match :: "jsstring \<Rightarrow> bool" where
  "Numeral_match w =
     (let f = foldCase w in
      list_ex (\<lambda>s. endsWith f s \<and> basicNumbersPlus (sliceEnd f (length s))) numeralSuffixes
      \<or> f \<in> set (butlast SPECIAL_NUMBERS)
      \<or> f \<in> set (withJN (last SPECIAL_NUMBERS)))"

text \<open>The patterns of \<open>extractNumeralRoot\<close> in order; the last one always matches.\<close>

definition numeralRootPatterns :: "jsstring list list" where
  "numeralRootPatterns =
     [withJN (lit ''a''), [lit ''e''], withJN (lit ''on''),
      withJN (lit ''obla'') @ withJN (lit ''oble''),
      withJN (lit ''opa'') @ withJN (lit ''ope''), jn]"

fun extractNumeralRootLoop :: "jsstring list list \<Rightarrow> jsstring \<Rightarrow> jsstring" where
  "extractNumeralRootLoop [] w = w"
| "extractNumeralRootLoop (pattern # rest) w =
     (case matchSuffix pattern w of
        Some m \<Rightarrow> take (length w - length m) w
      | None \<Rightarrow> extractNumeralRootLoop rest w)"

definition extractNumeralRoot :: "jsstring \<Rightarrow> jsstring" where
  "extractNumeralRoot w = extractNumeralRootLoop numeralRootPatterns (toLowerCase w)"

definition Numeral_checkPlural :: "jsstring \<Rightarrow> bool" where
  "Numeral_checkPlural w = (106 \<in> set (toLowerCase w))"

definition Numeral_checkAccusative :: "jsstring \<Rightarrow> bool" where
  "Numeral_checkAccusative w = endsWith (toLowerCase w) (lit ''n'')"

definition Numeral_extractMorphology :: "jsstring \<Rightarrow> AnalysisOptions \<Rightarrow> error + MorphologicalFeatures" where
  "Numeral_extractMorphology w options =
     (let baseMorphology = Base_extractMorphology Numeral_checkPlural Numeral_checkAccusative w options
      in if \<not> Numeral_match w then Inl (Error ''Word does not match numeral pattern'')
         else Inr (baseMorphology\<lparr>root := Some (extractNumeralRoot w)\<rparr>))"

subsection \<open>Pronoun\<close>

definition PERSONAL_PRONOUNS :: "jsstring list" where
  "PERSONAL_PRONOUNS =
     [lit ''mi'', lit ''vi'', lit ''li'', [s_circ] @ lit ''i'', [g_circ] @ lit ''i'', lit ''ni'',
      lit ''ili'', lit ''oni'', lit ''si'']"

definition POSSESSIVE_ROOTS :: "jsstring list" where
  "POSSESSIVE_ROOTS =
     [lit ''mi'', lit ''vi'', lit ''li'', [s_circ] @ lit ''i'', [g_circ] @ lit ''i'', lit ''ni'',
      lit ''ili'', lit ''oni'', lit ''si'']"

definition CORRELATIVE_BEGINNINGS :: "jsstring list" where
  "CORRELATIVE_BEGINNINGS = [lit ''ki'', lit ''ti'', lit ''i'', [c_circ] @ lit ''i'', lit ''neni'']"

definition CORRELATIVE_ENDINGS :: "jsstring list" where
  "CORRELATIVE_ENDINGS =
     [lit ''u'', lit ''o'', lit ''a'', lit ''e'', lit ''al'', lit ''am'', lit ''om'', lit ''el'']"

definition SPECIAL_PRONOUNS :: "jsstring list" where
  "SPECIAL_PRONOUNS =
     [[c_circ] @ lit ''i'', lit ''mem'', lit ''sama'', lit ''tia'', lit ''tial'', lit ''tiam'',
      lit ''tie'', lit ''tiel'', lit ''tiom'']"

definition generateCorrelatives :: "jsstring list" where
  "generateCorrelatives =
     concat (map (\<lambda>beginning.
       concat (map (\<lambda>ending.
         if ending = lit ''u'' then [beginning @ ending, beginning @ ending @ lit ''o'']
         else [beginning @ ending]) CORRELATIVE_ENDINGS)) CORRELATIVE_BEGINNINGS)"

text \<open>
  The last alternative of the pattern, \<^verbatim>\<open>ci\s+(ti[uoael]|ti[ao]m|tiel)(j?n?)\<close> with the
  first letter U+0109: white space, at least one unit of it, stands between the parts.
\<close>

definition compoundTargets :: "jsstring list" where
  "compoundTargets =
     concat (map withJN
       [lit ''tiu'', lit ''tio'', lit ''tia'', lit ''tie'', lit ''til'', lit ''tiam'', lit ''tiom'',
        lit ''tiel''])"

definition Pronoun_match :: "jsstring \<Rightarrow> bool" where
  "Pronoun_match w =
     (let f = foldCase w in
      f \<in> set (concat (map (\<lambda>p. [p, p @ lit ''n'']) PERSONAL_PRONOUNS))
      \<or> f \<in> set (concat (map (\<lambda>r. withJN (r @ lit ''a'')) POSSESSIVE_ROOTS))
      \<or> f \<in> set (concat (map withJN generateCorrelatives))
      \<or> f \<in> set (concat (map withJN SPECIAL_PRONOUNS))
      \<or> (startsWith f ([c_circ] @ lit ''i'')
          \<and> (let r = drop 2 f; t = dropWhile isWhiteSpace r
              in t \<noteq> r \<and> t \<in> set compoundTargets)))"

text \<open>The patterns of \<open>extractPronounRoot\<close>: a match counts when it is not the whole word.\<close>

definition pronounRootPatterns :: "jsstring list list" where
  "pronounRootPatterns = [withJN (lit ''a''), [lit ''n''], jn]"

fun extractPronounRootLoop :: "jsstring list list \<Rightarrow> jsstring \<Rightarrow> jsstring" where
  "extractPronounRootLoop [] w = w"
| "extractPronounRootLoop (pattern # rest) w =
     (case matchSuffix pattern w of
        Some m \<Rightarrow> if length m < length w then take (length w - length m) w
                  else extractPronounRootLoop rest w
      | None \<Rightarrow> extractPronounRootLoop rest w)"

definition extractPronounRoot :: "jsstring \<Rightarrow> jsstring" where
  "extractPronounRoot w =
     (let lowercaseWord = trim (toLowerCase w) in
      if startsWith lowercaseWord ([c_circ] @ lit ''i '') then drop 3 lowercaseWord
      else extractPronounRootLoop pronounRootPatterns lowercaseWord)"

definition Pronoun_checkPlural :: "jsstring \<Rightarrow> bool" where
  "Pronoun_checkPlural w = (106 \<in> set (toLowerCase w))"

definition Pronoun_checkAccusative :: "jsstring \<Rightarrow> bool" where
  "Pronoun_checkAccusative w = endsWith (toLowerCase w) (lit ''n'')"

definition Pronoun_extractMorphology :: "jsstring \<Rightarrow> AnalysisOptions \<Rightarrow> error + MorphologicalFeatures" where
  "Pronoun_extractMorphology w options =
     (let baseMorphology = Base_extractMorphology Pronoun_checkPlural Pronoun_checkAccusative w options
      in if \<not> Pronoun_match w then Inl (Error ''Word does not match pronoun pattern'')
         else Inr (baseMorphology\<lparr>root := Some (extractPronounRoot w)\<rparr>))"

subsection \<open>The ten analyzers as one type\<close>

datatype Analyzer =
  NounMorphologicalAnalyzer | VerbMorphologicalAnalyzer | AdjectiveMorphologicalAnalyzer
  | AdverbMorphologicalAnalyzer | ArticleMorphologicalAnalyzer | ConjunctionMorphologicalAnalyzer
  | InterjectionMorphologicalAnalyzer | NumeralMorphologicalAnalyzer
  | PrepositionMorphologicalAnalyzer | PronounMorphologicalAnalyzer

definition ALL_MORPHOLOGICAL_ANALYZERS :: "Analyzer list" where
  "ALL_MORPHOLOGICAL_ANALYZERS =
     [NounMorphologicalAnalyzer, VerbMorphologicalAnalyzer, AdjectiveMorphologicalAnalyzer,
      AdverbMorphologicalAnalyzer, ArticleMorphologicalAnalyzer, ConjunctionMorphologicalAnalyzer,
      InterjectionMorphologicalAnalyzer, NumeralMorphologicalAnalyzer,
      PrepositionMorphologicalAnalyzer, PronounMorphologicalAnalyzer]"

fun name :: "Analyzer \<Rightarrow> string" where
  "name NounMorphologicalAnalyzer = ''NounMorphologicalAnalyzer''"
| "name VerbMorphologicalAnalyzer = ''VerbMorphologicalAnalyzer''"
| "name AdjectiveMorphologicalAnalyzer = ''AdjectiveMorphologicalAnalyzer''"
| "name AdverbMorphologicalAnalyzer = ''AdverbMorphologicalAnalyzer''"
| "name ArticleMorphologicalAnalyzer = ''ArticleMorphologicalAnalyzer''"
| "name ConjunctionMorphologicalAnalyzer = ''ConjunctionMorphologicalAnalyzer''"
| "name InterjectionMorphologicalAnalyzer = ''InterjectionMorphologicalAnalyzer''"
| "name NumeralMorphologicalAnalyzer = ''NumeralMorphologicalAnalyzer''"
| "name PrepositionMorphologicalAnalyzer = ''PrepositionMorphologicalAnalyzer''"
| "name PronounMorphologicalAnalyzer = ''PronounMorphologicalAnalyzer''"

fun analyzerPartOfSpeech :: "Analyzer \<Rightarrow> PartOfSpeech" where
  "analyzerPartOfSpeech NounMorphologicalAnalyzer = Noun"
| "analyzerPartOfSpeech VerbMorphologicalAnalyzer = Verb"
| "analyzerPartOfSpeech AdjectiveMorphologicalAnalyzer = Adjective"
| "analyzerPartOfSpeech AdverbMorphologicalAnalyzer = Adverb"
| "analyzerPartOfSpeech ArticleMorphologicalAnalyzer = Article"
| "analyzerPartOfSpeech ConjunctionMorphologicalAnalyzer = Conjunction"
| "analyzerPartOfSpeech InterjectionMorphologicalAnalyzer = Interjection"
| "analyzerPartOfSpeech NumeralMorphologicalAnalyzer = Numeral"
| "analyzerPartOfSpeech PrepositionMorphologicalAnalyzer = Preposition"
| "analyzerPartOfSpeech PronounMorphologicalAnalyzer = Pronoun"

fun match :: "Analyzer \<Rightarrow> jsstring \<Rightarrow> bool" where
  "match NounMorphologicalAnalyzer w = Noun_match w"
| "match VerbMorphologicalAnalyzer w = Verb_match w"
| "match AdjectiveMorphologicalAnalyzer w = Adjective_match w"
| "match AdverbMorphologicalAnalyzer w = Adverb_match w"
| "match ArticleMorphologicalAnalyzer w = Article_match w"
| "match ConjunctionMorphologicalAnalyzer w = Conjunction_match w"
| "match InterjectionMorphologicalAnalyzer w = Interjection_match w"
| "match NumeralMorphologicalAnalyzer w = Numeral_match w"
| "match PrepositionMorphologicalAnalyzer w = Preposition_match w"
| "match PronounMorphologicalAnalyzer w = Pronoun_match w"

fun extractMorphology :: "Analyzer \<Rightarrow> jsstring \<Rightarrow> AnalysisOptions \<Rightarrow> error + MorphologicalFeatures" where
  "extractMorphology NounMorphologicalAnalyzer w options = Noun_extractMorphology w options"
| "extractMorphology VerbMorphologicalAnalyzer w options = Verb_extractMorphology w options"
| "extractMorphology AdjectiveMorphologicalAnalyzer w options = Adjective_extractMorphology w options"
| "extractMorphology AdverbMorphologicalAnalyzer w options = Adverb_extractMorphology w options"
| "extractMorphology ArticleMorphologicalAnalyzer w options = Article_extractMorphology w options"
| "extractMorphology ConjunctionMorphologicalAnalyzer w options = Conjunction_extractMorphology w options"
| "extractMorphology InterjectionMorphologicalAnalyzer w options = Interjection_extractMorphology w options"
| "extractMorphology NumeralMorphologicalAnalyzer w options = Numeral_extractMorphology w options"
| "extractMorphology PrepositionMorphologicalAnalyzer w options = Preposition_extractMorphology w options"
| "extractMorphology PronounMorphologicalAnalyzer w options = Pronoun_extractMorphology w options"

section \<open>Word values\<close>

datatype Word =
  NounWord jsstring | VerbWord jsstring | AdjectiveWord jsstring | AdverbWord jsstring
  | ArticleWord jsstring | ConjunctionWord jsstring | InterjectionWord jsstring
  | NumeralWord jsstring | PrepositionWord jsstring | PronounWord jsstring
  | UndefinedWord jsstring

text \<open>
  \<open>createWord value partOfSpeech\<close> switches on its second argument, a string. The
  constructor of the article throws unless the value is "la" in some letter case.
\<close>

definition createWord :: "jsstring \<Rightarrow> jsstring \<Rightarrow> error + Word" where
  "createWord val partOfSpeech =
     (if partOfSpeech = lit ''Noun'' then Inr (NounWord val)
      else if partOfSpeech = lit ''Verb'' then Inr (VerbWord val)
      else if partOfSpeech = lit ''Adjective'' then Inr (AdjectiveWord val)
      else if partOfSpeech = lit ''Adverb'' then Inr (AdverbWord val)
      else if partOfSpeech = lit ''Article'' then
        (if toLowerCase val \<noteq> lit ''la'' then Inl (InvalidArticleError ''Invalid article'')
         else Inr (ArticleWord val))
      else if partOfSpeech = lit ''Conjunction'' then Inr (ConjunctionWord val)
      else if partOfSpeech = lit ''Interjection'' then Inr (InterjectionWord val)
      else if partOfSpeech = lit ''Numeral'' then Inr (NumeralWord val)
      else if partOfSpeech = lit ''Preposition'' then Inr (PrepositionWord val)
      else if partOfSpeech = lit ''Pronoun'' then Inr (PronounWord val)
      else Inr (UndefinedWord val))"

text \<open>The tag of a part of speech as the string it is in the program.\<close>

fun tagString :: "PartOfSpeech \<Rightarrow> jsstring" where
  "tagString Noun = lit ''Noun''"
| "tagString Verb = lit ''Verb''"
| "tagString Adjective = lit ''Adjective''"
| "tagString Adverb = lit ''Adverb''"
| "tagString Pronoun = lit ''Pronoun''"
| "tagString Preposition = lit ''Preposition''"
| "tagString Conjunction = lit ''Conjunction''"
| "tagString Interjection = lit ''Interjection''"
| "tagString Article = lit ''Article''"
| "tagString Numeral = lit ''Numeral''"
| "tagString Unknown = lit ''Unknown''"
| "tagString Undefined = lit ''Undefined''"

section \<open>The word-level analyzer\<close>

datatype AnalysisResult =
  AnalysisResult
    (word: jsstring)
    (partOfSpeech: PartOfSpeech)
    (morphology: "MorphologicalFeatures option")
    (wordInstance: "Word option")
    (confidence: "rat option")
    (alternatives: "AnalysisResult list")
    (analyzer: string)

text \<open>A value a caller can pass where a string is expected.\<close>

datatype jsvalue =
  JSUndefined | JSNull | JSBoolean bool | JSNumber rat | JSString jsstring | JSObject

definition correlativePronouns :: "jsstring list" where
  "correlativePronouns =
     [lit ''kiu'', lit ''kio'', lit ''kia'', lit ''kie'', lit ''kial'', lit ''kiam'', lit ''kiom'',
      lit ''kiel'',
      lit ''tiu'', lit ''tio'', lit ''tia'', lit ''tie'', lit ''tial'', lit ''tiam'', lit ''tiom'',
      lit ''tiel'',
      lit ''iu'', lit ''io'', lit ''ia'', lit ''ie'', lit ''ial'', lit ''iam'', lit ''iom'', lit ''iel'',
      [c_circ] @ lit ''iu'', [c_circ] @ lit ''io'', [c_circ] @ lit ''ia'', [c_circ] @ lit ''ie'',
      [c_circ] @ lit ''ial'', [c_circ] @ lit ''iam'', [c_circ] @ lit ''iom'', [c_circ] @ lit ''iel'',
      lit ''neniu'', lit ''nenio'', lit ''nenia'', lit ''nenie'', lit ''nenial'', lit ''neniam'',
      lit ''neniom'', lit ''neniel'']"

definition calculateConfidence :: "Analyzer \<Rightarrow> jsstring \<Rightarrow> rat" where
  "calculateConfidence a w =
     (let pos = analyzerPartOfSpeech a;
          c0 = 1 / 2;
          c1 = (if pos = Article \<and> toLowerCase w = lit ''la'' then 1 else c0);
          c2 = (if pos = Numeral \<and> toLowerCase w \<in> set BASIC_NUMBERS then 95 / 100 else c1);
          c3 = (if pos = Pronoun \<and> toLowerCase w \<in> set correlativePronouns then 9 / 10 else c2);
          c4 = (if length w > 5 \<and> pos \<in> set [Verb, Noun, Adjective] then c3 + 2 / 10 else c3);
          c5 = (case pos of
                  Noun \<Rightarrow> if lettersThen 1 (withJN (lit ''o'')) w then c4 + 3 / 10 else c4
                | Verb \<Rightarrow> if lettersThen 1 (map lit [''as'', ''is'', ''os'', ''us'', ''u'', ''i'']) w
                          then c4 + 3 / 10 else c4
                | Adjective \<Rightarrow> if lettersThen 1 (withJN (lit ''a'')) w then c4 + 3 / 10 else c4
                | Adverb \<Rightarrow> if lettersThen 1 [lit ''e''] w then c4 + 3 / 10 else c4
                | _ \<Rightarrow> c4)
      in min c5 1)"

definition createUnknownWordResult :: "jsstring \<Rightarrow> AnalysisResult" where
  "createUnknownWordResult w =
     AnalysisResult w Unknown
       (Some (getEmptyMorphology\<lparr>root := Some w\<rparr>)) None (Some 0) [] ''Unknown''"

text \<open>
  The loop over the analyzers: no \<open>match\<close> throws, so the matches are the analyzers
  whose \<open>match\<close> holds, in the order of the list, each with its confidence.
\<close>

definition collectMatches :: "jsstring \<Rightarrow> (Analyzer \<times> rat) list" where
  "collectMatches cleanWord =
     map (\<lambda>a. (a, calculateConfidence a cleanWord))
       (filter (\<lambda>a. match a cleanWord) ALL_MORPHOLOGICAL_ANALYZERS)"

text \<open>
  \<^verbatim>\<open>matches.sort((a, b) => b.confidence - a.confidence)\<close>: the sort of the language
  is stable, here an insertion sort on the negated confidence.
\<close>

definition sortByConfidence :: "(Analyzer \<times> rat) list \<Rightarrow> (Analyzer \<times> rat) list" where
  "sortByConfidence matches = sort_key (\<lambda>m. - snd m) matches"

text \<open>
  The dispatcher calls \<open>createWord(speechPart, cleanWord)\<close>: the tag is passed as the
  value and the word as the part of speech.
\<close>

definition getAlternatives ::
  "(Analyzer \<times> rat) list \<Rightarrow> jsstring \<Rightarrow> AnalysisOptions \<Rightarrow> AnalysisResult list" where
  "getAlternatives matches w options =
     map (\<lambda>m.
        let minimal = AnalysisResult w Unknown (Some (getEmptyMorphology\<lparr>root := Some w\<rparr>))
                        None (Some 0) [] (name (fst m))
        in case extractMorphology (fst m) w options of
             Inl _ \<Rightarrow> minimal
           | Inr morph \<Rightarrow>
              (let speechPart = analyzerPartOfSpeech (fst m)
               in case createWord (tagString speechPart) w of
                    Inl _ \<Rightarrow> minimal
                  | Inr inst \<Rightarrow>
                      AnalysisResult w speechPart (Some morph) (Some inst) (Some (snd m)) []
                        (name (fst m))))
       (take 3 matches)"

definition analyzeClean :: "jsstring \<Rightarrow> AnalysisOptions \<Rightarrow> AnalysisResult" where
  "analyzeClean cleanWord options =
     (let matches = collectMatches cleanWord in
      if matches = [] then createUnknownWordResult cleanWord
      else case sortByConfidence matches of
             [] \<Rightarrow> createUnknownWordResult cleanWord
           | bestMatch # rest \<Rightarrow>
              (case extractMorphology (fst bestMatch) cleanWord options of
                 Inl _ \<Rightarrow> createUnknownWordResult cleanWord
               | Inr morph \<Rightarrow>
                  (let speechPart = analyzerPartOfSpeech (fst bestMatch)
                   in case createWord (tagString speechPart) cleanWord of
                        Inl _ \<Rightarrow> createUnknownWordResult cleanWord
                      | Inr inst \<Rightarrow>
                          AnalysisResult cleanWord speechPart (Some morph) (Some inst)
                            (Some (snd bestMatch))
                            (getAlternatives rest cleanWord options)
                            (name (fst bestMatch)))))"

definition analyze :: "jsvalue \<Rightarrow> AnalysisOptions \<Rightarrow> error + AnalysisResult" where
  "analyze v options =
     (case v of
        JSString w \<Rightarrow>
          if w = [] then Inl (Error ''Word must be a non-empty string'')
          else (let cleanWord = trim w in
                if cleanWord = [] then Inl (Error ''Word cannot be empty or only whitespace'')
                else Inr (analyzeClean cleanWord options))
      | _ \<Rightarrow> Inl (Error ''Word must be a non-empty string''))"

text \<open>
  \<open>analyzeAll\<close>: every analyzer that matches and whose extraction and word value do
  not throw gives a result; the results are sorted like the matches.
\<close>

definition analyzeAllClean :: "jsstring \<Rightarrow> AnalysisOptions \<Rightarrow> AnalysisResult list" where
  "analyzeAllClean cleanWord options =
     (let results =
        concat (map (\<lambda>a.
          if match a cleanWord then
            (case extractMorphology a cleanWord options of
               Inl _ \<Rightarrow> []
             | Inr morph \<Rightarrow>
                (let speechPart = analyzerPartOfSpeech a
                 in case createWord (tagString speechPart) cleanWord of
                      Inl _ \<Rightarrow> []
                    | Inr inst \<Rightarrow>
                        [AnalysisResult cleanWord speechPart (Some morph) (Some inst)
                           (Some (calculateConfidence a cleanWord)) [] (name a)]))
          else []) ALL_MORPHOLOGICAL_ANALYZERS)
      in sort_key (\<lambda>r. - (case confidence r of Some c \<Rightarrow> c | None \<Rightarrow> 0)) results)"

definition analyzeAll :: "jsvalue \<Rightarrow> AnalysisOptions \<Rightarrow> error + AnalysisResult list" where
  "analyzeAll v options =
     (case v of
        JSString w \<Rightarrow>
          if w = [] then Inl (Error ''Word must be a non-empty string'')
          else (let cleanWord = trim w in
                if cleanWord = [] then Inl (Error ''Word cannot be empty or only whitespace'')
                else Inr (analyzeAllClean cleanWord options))
      | _ \<Rightarrow> Inl (Error ''Word must be a non-empty string''))"

text \<open>
  \<open>canAnalyze\<close>: each \<^verbatim>\<open>return\<close> is a value (\<open>Inr\<close>) and there is no \<^verbatim>\<open>throw\<close>;
  the callback of \<^verbatim>\<open>some\<close> answers false where a \<open>match\<close> throws, which none does.
\<close>

definition canAnalyze :: "jsvalue \<Rightarrow> error + bool" where
  "canAnalyze v =
     (case v of
        JSString w \<Rightarrow>
          if w = [] then Inr False
          else (let cleanWord = trim w in
                if cleanWord = [] then Inr False
                else Inr (list_ex (\<lambda>a. match a cleanWord) ALL_MORPHOLOGICAL_ANALYZERS))
      | _ \<Rightarrow> Inr False)"

section \<open>The sentence-level analyzer\<close>

record SentenceAnalysisOptions =
  includeConfidence :: "bool option"
  includeAlternatives :: "bool option"
  includeMorphology :: "bool option"
  maxAlternatives :: "int option"
  preserveCase :: "bool option"

definition defaultSentenceOptions :: SentenceAnalysisOptions where
  "defaultSentenceOptions =
     \<lparr>includeConfidence = None, includeAlternatives = None, includeMorphology = None,
      maxAlternatives = None, preserveCase = None\<rparr>"

text \<open>
  \<open>averageConfidence\<close> is the double the code computes, by its value; a \<open>confidence\<close>
  is the decimal of its double.
\<close>

record Statistics =
  totalWords :: nat
  analyzedWords :: nat
  unknownWords :: nat
  averageConfidence :: rat
  partOfSpeechCounts :: "PartOfSpeech \<rightharpoonup> nat"

record SentenceAnalysisResult =
  originalSentence :: jsstring
  words :: "AnalysisResult list"
  statistics :: Statistics

subsection \<open>Tokenizer\<close>

definition isPunctuation :: "nat \<Rightarrow> bool" where
  "isPunctuation c = (c \<in> set (lit ''.!?;:,''))"

text \<open>\<^verbatim>\<open>replace(/([.!?;:,])/g, ' $1 ')\<close>\<close>

definition spacePunctuation :: "jsstring \<Rightarrow> jsstring" where
  "spacePunctuation s = concat (map (\<lambda>c. if isPunctuation c then [32, c, 32] else [c]) s)"

text \<open>\<^verbatim>\<open>replace(/\s+/g, ' ')\<close>: each run of white space becomes one space.\<close>

function normalizeWhitespace :: "jsstring \<Rightarrow> jsstring" where
  "normalizeWhitespace [] = []"
| "normalizeWhitespace (c # cs) =
     (if isWhiteSpace c then 32 # normalizeWhitespace (dropWhile isWhiteSpace cs)
      else c # normalizeWhitespace cs)"
  by pat_completeness auto
termination
  by (relation "measure length") (auto simp: length_dropWhile_le less_Suc_eq_le)

text \<open>
  \<^verbatim>\<open>split(/\s+/)\<close>: the pieces between the runs of white space; a run at either end
  leaves an empty piece there, and the empty string gives one empty piece.
\<close>

function splitWhitespace :: "jsstring \<Rightarrow> jsstring list" where
  "splitWhitespace s =
     (if dropWhile (\<lambda>c. \<not> isWhiteSpace c) s = [] then [takeWhile (\<lambda>c. \<not> isWhiteSpace c) s]
      else takeWhile (\<lambda>c. \<not> isWhiteSpace c) s
           # splitWhitespace (dropWhile isWhiteSpace (dropWhile (\<lambda>c. \<not> isWhiteSpace c) s)))"
  by pat_completeness auto
termination
proof (relation "measure length")
  show "wf (measure length)" by simp
next
  fix s :: jsstring
  define rest where "rest = dropWhile (\<lambda>c. \<not> isWhiteSpace c) s"
  assume "dropWhile (\<lambda>c. \<not> isWhiteSpace c) s \<noteq> []"
  then have ne: "rest \<noteq> []" by (simp add: rest_def)
  then obtain c cs where c: "rest = c # cs" by (cases rest) auto
  have "isWhiteSpace c"
  proof -
    from c have "dropWhile (\<lambda>c. \<not> isWhiteSpace c) s = c # cs" by (simp add: rest_def)
    then show ?thesis by (simp add: dropWhile_eq_Cons_conv)
  qed
  then have "length (dropWhile isWhiteSpace rest) < length rest"
    using c length_dropWhile_le [of isWhiteSpace cs] by simp
  moreover have "length rest \<le> length s" by (simp add: rest_def length_dropWhile_le)
  ultimately show "(dropWhile isWhiteSpace (dropWhile (\<lambda>c. \<not> isWhiteSpace c) s), s) \<in> measure length"
    by (simp add: rest_def)
qed

declare splitWhitespace.simps [simp del]

definition tokenize :: "jsstring \<Rightarrow> jsstring list" where
  "tokenize sentence =
     filter (\<lambda>token. \<not> (token \<noteq> [] \<and> list_all isPunctuation token))
       (filter (\<lambda>token. length token > 0)
         (splitWhitespace (trim (normalizeWhitespace (spacePunctuation sentence)))))"

subsection \<open>Statistics\<close>

text \<open>
  \<open>confidenceSum\<close> adds the confidences of the recognized words from the left, each
  sum rounded; the average is the rounded quotient by the number of words that carry a
  confidence.
\<close>

definition calculateStatistics :: "AnalysisResult list \<Rightarrow> Statistics" where
  "calculateStatistics wordAnalyses =
     (let total = length wordAnalyses;
          analyzed = length (filter (\<lambda>w. partOfSpeech w \<noteq> Unknown) wordAnalyses);
          unknown = total - analyzed;
          confidenceSum =
            foldl (\<lambda>sum w. addDouble sum (case confidence w of Some c \<Rightarrow> toDouble c | None \<Rightarrow> 0)) 0
              (filter (\<lambda>w. partOfSpeech w \<noteq> Unknown \<and> confidence w \<noteq> None) wordAnalyses);
          wordsWithConfidence = length (filter (\<lambda>w. confidence w \<noteq> None) wordAnalyses);
          average =
            (if wordsWithConfidence > 0
             then divDouble confidenceSum (toDouble (of_nat wordsWithConfidence)) else 0);
          counts =
            foldl (\<lambda>m w. m(partOfSpeech w \<mapsto> (case m (partOfSpeech w) of Some n \<Rightarrow> n | None \<Rightarrow> 0) + 1))
              Map.empty wordAnalyses
      in \<lparr>totalWords = total, analyzedWords = analyzed, unknownWords = unknown,
          averageConfidence = average, partOfSpeechCounts = counts\<rparr>)"

subsection \<open>Sentences\<close>

text \<open>
  \<^verbatim>\<open>xs.slice(1, e)\<close> for an integer \<open>e\<close>: a negative end counts from the end of the
  list.
\<close>

definition sliceFromOne :: "int \<Rightarrow> 'a list \<Rightarrow> 'a list" where
  "sliceFromOne e xs =
     (let len = int (length xs);
          final = (if e < 0 then max (len + e) 0 else min e len)
      in take (nat (final - 1)) (drop 1 xs))"

definition optionOr :: "'a option \<Rightarrow> 'a \<Rightarrow> 'a" where
  "optionOr v d = (case v of Some x \<Rightarrow> x | None \<Rightarrow> d)"

text \<open>One token of the loop of \<open>analyzeSentence\<close>, with the options after the defaults.\<close>

definition analyzeToken ::
  "bool \<Rightarrow> bool \<Rightarrow> bool \<Rightarrow> int \<Rightarrow> bool \<Rightarrow> jsstring \<Rightarrow> AnalysisResult" where
  "analyzeToken inclConfidence inclAlternatives inclMorphology maxAlt keepCase w =
     (let first =
        (if inclAlternatives then
           (case analyzeAll (JSString w) noOptions of
              Inl e \<Rightarrow> Inl e
            | Inr [] \<Rightarrow> analyze (JSString w) getDefaultOptions
            | Inr (fullResult # others) \<Rightarrow>
                Inr (AnalysisResult (word fullResult) (partOfSpeech fullResult)
                       (morphology fullResult) (wordInstance fullResult) (confidence fullResult)
                       (sliceFromOne (maxAlt + 1) (fullResult # others)) (analyzer fullResult)))
         else analyze (JSString w) getDefaultOptions)
      in case first of
           Inl _ \<Rightarrow>
             AnalysisResult (if keepCase then w else toLowerCase w) Unknown
               (Some (getEmptyMorphology\<lparr>root := Some (toLowerCase w)\<rparr>)) None (Some 0) []
               ''Unknown''
         | Inr r \<Rightarrow>
             AnalysisResult
               (if keepCase then w else word r)
               (partOfSpeech r)
               (if \<not> inclMorphology then None else morphology r)
               (wordInstance r)
               (if \<not> inclConfidence then None else confidence r)
               (if \<not> inclAlternatives then [] else alternatives r)
               (analyzer r))"

definition analyzeSentence :: "jsvalue \<Rightarrow> SentenceAnalysisOptions \<Rightarrow> error + SentenceAnalysisResult" where
  "analyzeSentence v options =
     (case v of
        JSString sentence \<Rightarrow>
          if sentence = [] then Inl (Error ''Sentence must be a non-empty string'')
          else (let cleanSentence = trim sentence in
                if cleanSentence = [] then Inl (Error ''Sentence cannot be empty or only whitespace'')
                else
                  (let wordAnalyses =
                     map (analyzeToken
                            (optionOr (includeConfidence options) True)
                            (optionOr (includeAlternatives options) False)
                            (optionOr (includeMorphology options) True)
                            (optionOr (maxAlternatives options) 2)
                            (optionOr (preserveCase options) False))
                       (tokenize cleanSentence)
                   in Inr \<lparr>originalSentence = cleanSentence, words = wordAnalyses,
                           statistics = calculateStatistics wordAnalyses\<rparr>))
      | _ \<Rightarrow> Inl (Error ''Sentence must be a non-empty string''))"

section \<open>Entry points of the package\<close>

definition analyzeWord :: "jsvalue \<Rightarrow> error + AnalysisResult" where
  "analyzeWord v = analyze v getDefaultOptions"

definition analyzeSentenceDefault :: "jsvalue \<Rightarrow> error + SentenceAnalysisResult" where
  "analyzeSentenceDefault v = analyzeSentence v defaultSentenceOptions"

definition isEsperantoWord :: "jsvalue \<Rightarrow> error + bool" where
  "isEsperantoWord v = canAnalyze v"

text \<open>
  The inputs the entry points refuse: anything that is not a string, the empty string
  and a string of white space only.
\<close>

definition invalidInput :: "jsvalue \<Rightarrow> bool" where
  "invalidInput v = (case v of JSString s \<Rightarrow> list_all isWhiteSpace s | _ \<Rightarrow> True)"

section \<open>Notions of the statements\<close>

text \<open>
  A well-formed noun: a root followed by "o", then "j" when it is plural and "n" when it
  is accusative.
\<close>

definition nounEnding :: "bool \<Rightarrow> bool \<Rightarrow> jsstring" where
  "nounEnding pl acc = lit ''o'' @ (if pl then lit ''j'' else []) @ (if acc then lit ''n'' else [])"

definition nounForm :: "jsstring \<Rightarrow> bool \<Rightarrow> bool \<Rightarrow> jsstring" where
  "nounForm r pl acc = r @ nounEnding pl acc"

text \<open>A string that ends like a noun after at least two code units.\<close>

definition nounShaped :: "jsstring \<Rightarrow> bool" where
  "nounShaped x = list_ex (\<lambda>s. endsWith x s \<and> 2 + length s \<le> length x) (withJN (lit ''o''))"

text \<open>The entries of \<open>correlativePronouns\<close> that have the shape of a noun.\<close>

definition nounShapedCorrelatives :: "jsstring list" where
  "nounShapedCorrelatives = [lit ''kio'', lit ''tio'', [c_circ] @ lit ''io'', lit ''nenio'']"




section \<open>Evaluation on concrete words\<close>

lemma lit_Nil: "lit [] = []"
  by (simp add: lit_def)

lemma lit_Cons: "lit (c # cs) = of_char c # lit cs"
  by (simp add: lit_def)

lemmas chars =
  lit_Nil lit_Cons isAsciiUpper_def isAsciiLower_def esperantoUpper_def esperantoLower_def
  isLetter_def isLowerLetter_def isWhiteSpace_def lowerUnit_def toLowerCase_def foldUnit_def
  foldCase_def

lemmas strs =
  endsWith_def startsWith_def includesStr_def sliceEnd_def jn_def withJN_def lettersThen_def
  trim_def

text \<open>
  The patterns of the analyzers with their word lists computed once, as lists of code
  units.
\<close>

lemmas word_lists =
  lit_def jn_def withJN_def VERB_ENDINGS_def PARTICIPLE_ENDINGS_def ALL_ENDINGS_def
  SPECIAL_ADVERBS_def CONJUNCTIONS_def INTERJECTIONS_def PREPOSITIONS_def
  COMPOUND_PREPOSITIONS_def numeralSuffixes_def BASIC_NUMBERS_def SPECIAL_NUMBERS_def
  PERSONAL_PRONOUNS_def POSSESSIVE_ROOTS_def generateCorrelatives_def
  CORRELATIVE_BEGINNINGS_def CORRELATIVE_ENDINGS_def SPECIAL_PRONOUNS_def compoundTargets_def
  esperantoUpper_def esperantoLower_def

lemmas lowered_lists = word_lists toLowerCase_def lowerUnit_def isAsciiUpper_def

lemmas matchers =
  Adverb_match_def hasValidEsperantoCharacters_def
  Noun_match_def [unfolded word_lists, simplified]
  Verb_match_def [unfolded word_lists, simplified]
  Adjective_match_def [unfolded word_lists, simplified]
  Adverb_matchRegex_def [unfolded word_lists, simplified]
  isSpecialAdverb_def [unfolded word_lists, simplified]
  hasValidEsperantoPhonology_def [unfolded word_lists notVowelClass_def, simplified]
  Article_match_def [unfolded word_lists, simplified]
  Conjunction_match_def [unfolded word_lists, simplified]
  Interjection_match_def [unfolded lowered_lists, simplified]
  Preposition_match_def [unfolded word_lists, simplified]
  Numeral_match_def [unfolded word_lists, simplified]
  basicNumbersPlus.simps [unfolded word_lists, simplified]
  Pronoun_match_def [unfolded word_lists, simplified]

text \<open>The confidence of each analyzer, by cases of the heuristic.\<close>

lemma confidence_Noun:
  "calculateConfidence NounMorphologicalAnalyzer w =
     min ((if length w > 5 then 7 / 10 else 1 / 2)
          + (if lettersThen 1 (withJN (lit ''o'')) w then 3 / 10 else 0)) 1"
  unfolding calculateConfidence_def Let_def by simp

lemma confidence_Verb:
  "calculateConfidence VerbMorphologicalAnalyzer w =
     min ((if length w > 5 then 7 / 10 else 1 / 2)
          + (if lettersThen 1 (map lit [''as'', ''is'', ''os'', ''us'', ''u'', ''i'']) w
             then 3 / 10 else 0)) 1"
  unfolding calculateConfidence_def Let_def by simp

lemma confidence_Adjective:
  "calculateConfidence AdjectiveMorphologicalAnalyzer w =
     min ((if length w > 5 then 7 / 10 else 1 / 2)
          + (if lettersThen 1 (withJN (lit ''a'')) w then 3 / 10 else 0)) 1"
  unfolding calculateConfidence_def Let_def by simp

lemma confidence_Adverb:
  "calculateConfidence AdverbMorphologicalAnalyzer w =
     (if lettersThen 1 [lit ''e''] w then 4 / 5 else 1 / 2)"
  unfolding calculateConfidence_def Let_def by simp

lemma confidence_Article:
  "calculateConfidence ArticleMorphologicalAnalyzer w =
     (if toLowerCase w = lit ''la'' then 1 else 1 / 2)"
  unfolding calculateConfidence_def Let_def by simp

lemma confidence_Conjunction: "calculateConfidence ConjunctionMorphologicalAnalyzer w = 1 / 2"
  unfolding calculateConfidence_def Let_def by simp

lemma confidence_Interjection: "calculateConfidence InterjectionMorphologicalAnalyzer w = 1 / 2"
  unfolding calculateConfidence_def Let_def by simp

lemma confidence_Preposition: "calculateConfidence PrepositionMorphologicalAnalyzer w = 1 / 2"
  unfolding calculateConfidence_def Let_def by simp

lemma confidence_Numeral:
  "calculateConfidence NumeralMorphologicalAnalyzer w =
     (if toLowerCase w \<in> set BASIC_NUMBERS then 95 / 100 else 1 / 2)"
  unfolding calculateConfidence_def Let_def by simp

lemma confidence_Pronoun:
  "calculateConfidence PronounMorphologicalAnalyzer w =
     (if toLowerCase w \<in> set correlativePronouns then 9 / 10 else 1 / 2)"
  unfolding calculateConfidence_def Let_def by simp

lemma matches_notaword:
  "filter (\<lambda>a. match a (lit ''notaword'')) ALL_MORPHOLOGICAL_ANALYZERS = []"
  by (simp add: ALL_MORPHOLOGICAL_ANALYZERS_def chars strs matchers)

lemma matches_house:
  "filter (\<lambda>a. match a (lit ''house'')) ALL_MORPHOLOGICAL_ANALYZERS = []"
  by (simp add: ALL_MORPHOLOGICAL_ANALYZERS_def chars strs matchers)

lemma matches_beautiful:
  "filter (\<lambda>a. match a (lit ''beautiful'')) ALL_MORPHOLOGICAL_ANALYZERS = []"
  by (simp add: ALL_MORPHOLOGICAL_ANALYZERS_def chars strs matchers)

lemma no_match_from_filter:
  "filter (\<lambda>a. match a w) ALL_MORPHOLOGICAL_ANALYZERS = []
   \<Longrightarrow> list_all (\<lambda>a. \<not> match a w) ALL_MORPHOLOGICAL_ANALYZERS"
  by (simp add: filter_empty_conv list_all_iff)

section \<open>Rounding to a double\<close>


















lemma floor_numeral_divide: "\<lfloor>(numeral a :: rat) / numeral b\<rfloor> = numeral a div numeral b"
  by (metis floor_divide_of_int_eq of_int_numeral)

lemmas double_eval =
  floor_numeral_divide toDouble_def addDouble_def divDouble_def ulp_def exponent_def exponentUp.simps
  exponentDown.simps roundHalfEven_def power_int_minus_divide

text \<open>
  The sums of the dispatcher are the doubles of their decimals: 0.5 + 0.2 is the double
  of 0.7, 0.5 + 0.3 that of 0.8, and 0.7 + 0.3 is 1.
\<close>

lemma confidence_decimals:
  "addDouble (1 / 2) (toDouble (2 / 10)) = toDouble (7 / 10)"
  "addDouble (1 / 2) (toDouble (3 / 10)) = toDouble (4 / 5)"
  "addDouble (toDouble (7 / 10)) (toDouble (3 / 10)) = 1"
  "toDouble (1 / 2) = 1 / 2" "toDouble 1 = 1"
  by (simp_all add: double_eval)

section \<open>Input validation\<close>

lemma trim_whitespace:
  assumes "list_all isWhiteSpace s"
  shows "trim s = []"
proof -
  have h: "dropWhile isWhiteSpace s = []" using assms by (simp add: list_all_iff)
  show ?thesis unfolding trim_def h by simp
qed

lemma analyze_invalid: "invalidInput v \<Longrightarrow> isl (analyze v options)"
  by (cases v) (simp_all add: invalidInput_def analyze_def trim_whitespace)

lemma analyzeSentence_invalid: "invalidInput v \<Longrightarrow> isl (analyzeSentence v options)"
  by (cases v) (simp_all add: invalidInput_def analyzeSentence_def trim_whitespace)

lemma canAnalyze_invalid: "invalidInput v \<Longrightarrow> canAnalyze v = Inr False"
  by (cases v) (simp_all add: invalidInput_def canAnalyze_def trim_whitespace)

lemma canAnalyze_returns: "\<exists>b. canAnalyze v = Inr b"
  by (cases v) (auto simp: canAnalyze_def Let_def)

lemma canAnalyze_string:
  assumes "trim s \<noteq> []"
  shows "canAnalyze (JSString s) = Inr (list_ex (\<lambda>a. match a (trim s)) ALL_MORPHOLOGICAL_ANALYZERS)"
proof -
  have "s \<noteq> []" using assms by (auto simp: trim_def)
  with assms show ?thesis by (simp add: canAnalyze_def Let_def)
qed

lemma canAnalyze_unmatched:
  assumes "list_all (\<lambda>a. \<not> match a (trim s)) ALL_MORPHOLOGICAL_ANALYZERS"
  shows "canAnalyze (JSString s) = Inr False"
proof -
  from assms have "\<not> list_ex (\<lambda>a. match a (trim s)) ALL_MORPHOLOGICAL_ANALYZERS"
    by (simp add: list_all_iff list_ex_iff)
  then show ?thesis by (simp add: canAnalyze_def Let_def)
qed

lemma invalid_examples:
  "invalidInput JSNull" "invalidInput JSUndefined" "invalidInput (JSNumber 5)"
  "invalidInput (JSString [])" "invalidInput (JSString (lit ''   ''))"
  by (simp_all add: invalidInput_def chars)

text \<open>
  C7. \<open>analyzeWord\<close> and \<open>analyzeSentence\<close> raise for every input that is not a string,
  for the empty string and for a string of white space only: the result is the error
  (\<open>Inl\<close>), for any options of the sentence analyzer, and the entry points hand the
  result of the analyzer to the caller as it is.
\<close>

theorem C7_invalid_input_raises:
  assumes "invalidInput v"
  shows "isl (analyzeWord v) \<and> isl (analyzeSentenceDefault v) \<and> isl (analyzeSentence v options)"
  using assms
  by (simp add: analyzeWord_def analyzeSentenceDefault_def analyze_invalid analyzeSentence_invalid)

theorem C7_invalid_input_raises_witness:
  "invalidInput JSNull \<and> isl (analyzeWord JSNull) \<and> isl (analyzeSentenceDefault JSNull)
   \<and> invalidInput (JSString []) \<and> isl (analyzeWord (JSString []))
   \<and> isl (analyzeSentenceDefault (JSString []))
   \<and> invalidInput (JSString (lit ''   '')) \<and> isl (analyzeWord (JSString (lit ''   '')))
   \<and> isl (analyzeSentenceDefault (JSString (lit ''   '')))"
  using C7_invalid_input_raises [OF invalid_examples(1), of defaultSentenceOptions]
    C7_invalid_input_raises [OF invalid_examples(4), of defaultSentenceOptions]
    C7_invalid_input_raises [OF invalid_examples(5), of defaultSentenceOptions]
    invalid_examples
  by simp

lemma trim_house: "trim (lit ''house'') = lit ''house''"
  by (simp add: chars strs)

lemma trim_beautiful: "trim (lit ''beautiful'') = lit ''beautiful''"
  by (simp add: chars strs)

lemma trim_notaword: "trim (lit ''notaword'') = lit ''notaword''"
  by (simp add: chars strs)

lemma trim_kio: "trim (lit ''kio'') = lit ''kio''"
  by (simp add: chars strs)

lemma trim_kuras: "trim (lit ''kuras'') = lit ''kuras''"
  by (simp add: chars strs)

lemma trim_hello: "trim (lit ''hello'') = lit ''hello''"
  by (simp add: chars strs)

lemma trim_domo: "trim (lit ''domo'') = lit ''domo''"
  by (simp add: chars strs)

lemma matches_hello:
  "filter (\<lambda>a. match a (lit ''hello'')) ALL_MORPHOLOGICAL_ANALYZERS = [NounMorphologicalAnalyzer]"
  by (simp add: ALL_MORPHOLOGICAL_ANALYZERS_def chars strs matchers)

lemma matches_domo:
  "filter (\<lambda>a. match a (lit ''domo'')) ALL_MORPHOLOGICAL_ANALYZERS = [NounMorphologicalAnalyzer]"
  by (simp add: ALL_MORPHOLOGICAL_ANALYZERS_def chars strs matchers)

lemma match_from_filter:
  "filter (\<lambda>a. match a w) ALL_MORPHOLOGICAL_ANALYZERS = b # bs
   \<Longrightarrow> list_ex (\<lambda>a. match a w) ALL_MORPHOLOGICAL_ANALYZERS"
proof -
  assume "filter (\<lambda>a. match a w) ALL_MORPHOLOGICAL_ANALYZERS = b # bs"
  then have "b \<in> set (filter (\<lambda>a. match a w) ALL_MORPHOLOGICAL_ANALYZERS)" by simp
  then show ?thesis by (auto simp: list_ex_iff)
qed

lemma house_unmatched:
  "list_all (\<lambda>a. \<not> match a (trim (lit ''house''))) ALL_MORPHOLOGICAL_ANALYZERS"
  using matches_house by (simp add: trim_house no_match_from_filter)

lemma beautiful_unmatched:
  "list_all (\<lambda>a. \<not> match a (trim (lit ''beautiful''))) ALL_MORPHOLOGICAL_ANALYZERS"
  using matches_beautiful by (simp add: trim_beautiful no_match_from_filter)

text \<open>
  C8, as the code has it. \<open>isEsperantoWord\<close> never throws: for every input it returns
  a boolean. It returns false for every input that is not a string, for the empty
  string, for white space only and for every string whose trimmed form no analyzer
  matches, which "house" and "beautiful" are; it returns true for every string whose
  trimmed form is not empty and matches the pattern of some analyzer, whether the text
  is Esperanto or not.
\<close>

theorem C8_isEsperantoWord_total:
  "(\<exists>b. isEsperantoWord v = Inr b)
   \<and> (invalidInput v \<longrightarrow> isEsperantoWord v = Inr False)
   \<and> (\<forall>s. v = JSString s \<and> list_all (\<lambda>a. \<not> match a (trim s)) ALL_MORPHOLOGICAL_ANALYZERS
          \<longrightarrow> isEsperantoWord v = Inr False)
   \<and> (\<forall>s. v = JSString s \<and> trim s \<noteq> [] \<and> list_ex (\<lambda>a. match a (trim s)) ALL_MORPHOLOGICAL_ANALYZERS
          \<longrightarrow> isEsperantoWord v = Inr True)
   \<and> isEsperantoWord (JSString (lit ''house'')) = Inr False
   \<and> isEsperantoWord (JSString (lit ''beautiful'')) = Inr False"
proof -
  have "\<exists>b. isEsperantoWord v = Inr b"
    by (simp add: isEsperantoWord_def canAnalyze_returns)
  moreover have "invalidInput v \<longrightarrow> isEsperantoWord v = Inr False"
    by (simp add: isEsperantoWord_def canAnalyze_invalid)
  moreover have "\<forall>s. v = JSString s \<and> list_all (\<lambda>a. \<not> match a (trim s)) ALL_MORPHOLOGICAL_ANALYZERS
          \<longrightarrow> isEsperantoWord v = Inr False"
    by (simp add: isEsperantoWord_def canAnalyze_unmatched)
  moreover have "\<forall>s. v = JSString s \<and> trim s \<noteq> [] \<and> list_ex (\<lambda>a. match a (trim s)) ALL_MORPHOLOGICAL_ANALYZERS
          \<longrightarrow> isEsperantoWord v = Inr True"
    by (simp add: isEsperantoWord_def canAnalyze_string)
  moreover have "isEsperantoWord (JSString (lit ''house'')) = Inr False"
    using house_unmatched by (simp add: isEsperantoWord_def canAnalyze_unmatched)
  moreover have "isEsperantoWord (JSString (lit ''beautiful'')) = Inr False"
    using beautiful_unmatched by (simp add: isEsperantoWord_def canAnalyze_unmatched)
  ultimately show ?thesis by blast
qed

theorem C8_isEsperantoWord_total_witness:
  "isEsperantoWord JSNull = Inr False \<and> isEsperantoWord (JSString []) = Inr False
   \<and> isEsperantoWord (JSString (lit ''   '')) = Inr False
   \<and> isEsperantoWord (JSString (lit ''house'')) = Inr False
   \<and> isEsperantoWord (JSString (lit ''beautiful'')) = Inr False
   \<and> isEsperantoWord (JSString (lit ''domo'')) = Inr True"
proof -
  have d: "trim (lit ''domo'') \<noteq> []
           \<and> list_ex (\<lambda>a. match a (trim (lit ''domo''))) ALL_MORPHOLOGICAL_ANALYZERS"
    unfolding trim_domo using match_from_filter [OF matches_domo] by (simp add: chars)
  show ?thesis
    using C8_isEsperantoWord_total [of JSNull] C8_isEsperantoWord_total [of "JSString []"]
      C8_isEsperantoWord_total [of "JSString (lit ''   '')"]
      C8_isEsperantoWord_total [of "JSString (lit ''house'')"]
      C8_isEsperantoWord_total [of "JSString (lit ''domo'')"]
      invalid_examples house_unmatched d
    by blast
qed

text \<open>
  The claim as stated fails on text that is not Esperanto but has the shape of an
  Esperanto word: the English "hello" ends in "o" after four letters, the noun pattern
  matches it, and \<open>isEsperantoWord\<close> returns true.
\<close>

theorem C8_counterexample_hello:
  "isEsperantoWord (JSString (lit ''hello'')) = Inr True"
proof -
  have "trim (lit ''hello'') \<noteq> []" unfolding trim_hello by (simp add: chars)
  then have "canAnalyze (JSString (lit ''hello''))
      = Inr (list_ex (\<lambda>a. match a (trim (lit ''hello''))) ALL_MORPHOLOGICAL_ANALYZERS)"
    by (rule canAnalyze_string)
  then show ?thesis
    unfolding trim_hello using match_from_filter [OF matches_hello]
    by (simp add: isEsperantoWord_def)
qed

section \<open>The dispatcher\<close>

lemma calculateConfidence_bounds:
  "1 / 2 \<le> calculateConfidence a w \<and> calculateConfidence a w \<le> 1"
proof -
  define pos where "pos = analyzerPartOfSpeech a"
  define c3 :: rat where "c3 =
     (if pos = Pronoun \<and> toLowerCase w \<in> set correlativePronouns then 9 / 10
      else if pos = Numeral \<and> toLowerCase w \<in> set BASIC_NUMBERS then 95 / 100
      else if pos = Article \<and> toLowerCase w = lit ''la'' then 1 else 1 / 2)"
  define c4 :: rat where "c4 = (if length w > 5 \<and> pos \<in> set [Verb, Noun, Adjective] then c3 + 2 / 10 else c3)"
  define c5 :: rat where "c5 = (case pos of
                  Noun \<Rightarrow> if lettersThen 1 (withJN (lit ''o'')) w then c4 + 3 / 10 else c4
                | Verb \<Rightarrow> if lettersThen 1 (map lit [''as'', ''is'', ''os'', ''us'', ''u'', ''i'']) w
                          then c4 + 3 / 10 else c4
                | Adjective \<Rightarrow> if lettersThen 1 (withJN (lit ''a'')) w then c4 + 3 / 10 else c4
                | Adverb \<Rightarrow> if lettersThen 1 [lit ''e''] w then c4 + 3 / 10 else c4
                | _ \<Rightarrow> c4)"
  have e: "calculateConfidence a w = min c5 1"
    unfolding calculateConfidence_def Let_def c5_def c4_def c3_def pos_def by simp
  have "1 / 2 \<le> c3" by (simp add: c3_def)
  then have "1 / 2 \<le> c4" by (simp add: c4_def)
  then have "1 / 2 \<le> c5" by (cases pos) (simp_all add: c5_def)
  then show ?thesis by (simp add: e)
qed

lemma trim_Nil: "trim [] = []" by (simp add: trim_def)

lemma collectMatches_none:
  "list_all (\<lambda>a. \<not> match a w) ALL_MORPHOLOGICAL_ANALYZERS \<Longrightarrow> collectMatches w = []"
  by (simp add: collectMatches_def list_all_iff filter_empty_conv)

text \<open>
  C4. When no analyzer matches the trimmed, non-empty word, \<open>analyze\<close> returns the
  synthetic result: part of speech \<open>Unknown\<close>, confidence 0, the morphology with the
  trimmed word as root and both flags false, and no alternatives.
\<close>

theorem C4_no_match_gives_unknown:
  assumes "trim w \<noteq> []"
    and "list_all (\<lambda>a. \<not> match a (trim w)) ALL_MORPHOLOGICAL_ANALYZERS"
  shows "analyze (JSString w) options =
           Inr (AnalysisResult (trim w) Unknown
                  (Some \<lparr>isPlural = False, isAccusative = False, tense = None, mood = None,
                         agreement = None, root = Some (trim w)\<rparr>)
                  None (Some 0) [] ''Unknown'')"
proof -
  from assms(1) have "w \<noteq> []" using trim_Nil by auto
  with assms show ?thesis
    by (simp add: analyze_def analyzeClean_def collectMatches_none createUnknownWordResult_def
        getEmptyMorphology_def Let_def)
qed

theorem C4_no_match_gives_unknown_witness:
  "trim (lit ''notaword'') \<noteq> []
   \<and> list_all (\<lambda>a. \<not> match a (trim (lit ''notaword''))) ALL_MORPHOLOGICAL_ANALYZERS
   \<and> analyze (JSString (lit ''notaword'')) getDefaultOptions =
       Inr (AnalysisResult (lit ''notaword'') Unknown
              (Some \<lparr>isPlural = False, isAccusative = False, tense = None, mood = None,
                     agreement = None, root = Some (lit ''notaword'')\<rparr>)
              None (Some 0) [] ''Unknown'')"
proof -
  have n: "trim (lit ''notaword'') \<noteq> []" unfolding trim_notaword by (simp add: chars)
  have m: "list_all (\<lambda>a. \<not> match a (trim (lit ''notaword''))) ALL_MORPHOLOGICAL_ANALYZERS"
    using matches_notaword by (simp add: trim_notaword no_match_from_filter)
  show ?thesis
    using C4_no_match_gives_unknown [OF n m, of getDefaultOptions] n m
    by (simp add: trim_notaword)
qed

lemma collectMatches_member:
  "m \<in> set (collectMatches w) \<Longrightarrow> snd m = calculateConfidence (fst m) w \<and> match (fst m) w"
  by (auto simp: collectMatches_def)

lemma set_sortByConfidence: "set (sortByConfidence ms) = set ms"
  by (simp add: sortByConfidence_def)

lemma analyzeClean_cases:
  "analyzeClean w options = createUnknownWordResult w
   \<or> (\<exists>bestMatch rest morph inst.
         sortByConfidence (collectMatches w) = bestMatch # rest
         \<and> extractMorphology (fst bestMatch) w options = Inr morph
         \<and> createWord (tagString (analyzerPartOfSpeech (fst bestMatch))) w = Inr inst
         \<and> analyzeClean w options =
             AnalysisResult w (analyzerPartOfSpeech (fst bestMatch)) (Some morph) (Some inst)
               (Some (snd bestMatch)) (getAlternatives rest w options) (name (fst bestMatch)))"
  unfolding analyzeClean_def Let_def
  by (simp split: list.splits sum.splits)

lemma analyzeClean_confidence:
  "\<exists>c. confidence (analyzeClean w options) = Some c
        \<and> ((c = 0 \<and> partOfSpeech (analyzeClean w options) = Unknown) \<or> (1 / 2 \<le> c \<and> c \<le> 1))"
  using analyzeClean_cases [of w options]
proof
  assume "analyzeClean w options = createUnknownWordResult w"
  then show ?thesis by (simp add: createUnknownWordResult_def)
next
  assume "\<exists>bestMatch rest morph inst.
         sortByConfidence (collectMatches w) = bestMatch # rest
         \<and> extractMorphology (fst bestMatch) w options = Inr morph
         \<and> createWord (tagString (analyzerPartOfSpeech (fst bestMatch))) w = Inr inst
         \<and> analyzeClean w options =
             AnalysisResult w (analyzerPartOfSpeech (fst bestMatch)) (Some morph) (Some inst)
               (Some (snd bestMatch)) (getAlternatives rest w options) (name (fst bestMatch))"
  then obtain bestMatch rest morph inst where
    s: "sortByConfidence (collectMatches w) = bestMatch # rest" and
    r: "analyzeClean w options =
             AnalysisResult w (analyzerPartOfSpeech (fst bestMatch)) (Some morph) (Some inst)
               (Some (snd bestMatch)) (getAlternatives rest w options) (name (fst bestMatch))"
    by blast
  from s have "bestMatch \<in> set (sortByConfidence (collectMatches w))" by simp
  then have "bestMatch \<in> set (collectMatches w)" by (simp only: set_sortByConfidence)
  then have "snd bestMatch = calculateConfidence (fst bestMatch) w"
    by (simp add: collectMatches_member)
  then show ?thesis using r calculateConfidence_bounds [of "fst bestMatch" w] by simp
qed

text \<open>
  C10. For every string that is not empty after trimming, the primary result of
  \<open>analyze\<close> has a confidence that is either 0, and then the part of speech is
  \<open>Unknown\<close>, or lies between 0.5 and 1.0: a result with another part of speech never
  has a confidence below 0.5.
\<close>

theorem C10_confidence_range:
  assumes "trim w \<noteq> []"
  shows "\<exists>r c. analyze (JSString w) options = Inr r \<and> confidence r = Some c
               \<and> ((c = 0 \<and> partOfSpeech r = Unknown) \<or> (1 / 2 \<le> c \<and> c \<le> 1))
               \<and> (partOfSpeech r \<noteq> Unknown \<longrightarrow> 1 / 2 \<le> c)"
proof -
  from assms have "w \<noteq> []" using trim_Nil by auto
  with assms have "analyze (JSString w) options = Inr (analyzeClean (trim w) options)"
    by (simp add: analyze_def)
  then show ?thesis using analyzeClean_confidence [of "trim w" options] by auto
qed

theorem C10_confidence_range_witness:
  "trim (lit ''kuras'') \<noteq> []
   \<and> (\<exists>r c. analyze (JSString (lit ''kuras'')) getDefaultOptions = Inr r \<and> confidence r = Some c
             \<and> ((c = 0 \<and> partOfSpeech r = Unknown) \<or> (1 / 2 \<le> c \<and> c \<le> 1))
             \<and> (partOfSpeech r \<noteq> Unknown \<longrightarrow> 1 / 2 \<le> c))"
proof -
  have n: "trim (lit ''kuras'') \<noteq> []" unfolding trim_kuras by (simp add: chars)
  show ?thesis using C10_confidence_range [OF n, of getDefaultOptions] n by blast
qed

lemma extract_ok: "match a w \<Longrightarrow> \<exists>m. extractMorphology a w options = Inr m"
  by (cases a)
    (simp_all add: Noun_extractMorphology_def Verb_extractMorphology_def
      Adjective_extractMorphology_def Adverb_extractMorphology_def Article_extractMorphology_def
      Conjunction_extractMorphology_def Interjection_extractMorphology_def
      Numeral_extractMorphology_def Preposition_extractMorphology_def
      Pronoun_extractMorphology_def Let_def)

lemma tag_not_la: "toLowerCase (tagString p) \<noteq> lit ''la''"
  by (cases p) (simp_all add: chars)

lemma createWord_Article:
  "createWord (tagString p) (lit ''Article'') = Inl (InvalidArticleError ''Invalid article'')"
proof -
  have "lit ''Article'' \<noteq> lit ''Noun''" "lit ''Article'' \<noteq> lit ''Verb''"
    "lit ''Article'' \<noteq> lit ''Adjective''" "lit ''Article'' \<noteq> lit ''Adverb''"
    by (simp_all add: chars)
  then show ?thesis by (simp add: createWord_def tag_not_la)
qed

lemma createWord_other: "w \<noteq> lit ''Article'' \<Longrightarrow> \<exists>inst. createWord v w = Inr inst"
  by (simp add: createWord_def)

lemma getAlternatives_confidence:
  assumes "w \<noteq> lit ''Article''" and "\<forall>m\<in>set ms. match (fst m) w"
  shows "map confidence (getAlternatives ms w options) = map (\<lambda>m. Some (snd m)) (take 3 ms)"
proof -
  have "confidence
          (let minimal = AnalysisResult w Unknown (Some (getEmptyMorphology\<lparr>root := Some w\<rparr>))
                        None (Some 0) [] (name (fst m))
           in case extractMorphology (fst m) w options of
             Inl _ \<Rightarrow> minimal
           | Inr morph \<Rightarrow>
              (let speechPart = analyzerPartOfSpeech (fst m)
               in case createWord (tagString speechPart) w of
                    Inl _ \<Rightarrow> minimal
                  | Inr inst \<Rightarrow>
                      AnalysisResult w speechPart (Some morph) (Some inst) (Some (snd m)) []
                        (name (fst m)))) = Some (snd m)"
    if "m \<in> set (take 3 ms)" for m
  proof -
    from that have "m \<in> set ms" by (rule in_set_takeD)
    with assms(2) have "match (fst m) w" by blast
    then obtain morph where e: "extractMorphology (fst m) w options = Inr morph"
      using extract_ok by blast
    obtain inst where c: "createWord (tagString (analyzerPartOfSpeech (fst m))) w = Inr inst"
      using createWord_other [OF assms(1)] by blast
    show ?thesis by (simp add: e c Let_def)
  qed
  then show ?thesis by (simp add: getAlternatives_def)
qed

lemma sortByConfidence_descending:
  "sorted_wrt (\<lambda>a b. a \<ge> b) (map snd (sortByConfidence ms))"
proof -
  have "sorted (map (\<lambda>m. - snd m) (sortByConfidence ms))"
    unfolding sortByConfidence_def by (rule sorted_sort_key)
  then show ?thesis by (simp add: sorted_wrt_map)
qed

text \<open>
  C5. For every string that is not empty after trimming, the result of \<open>analyze\<close>
  carries a confidence in the primary result and in each alternative, these
  confidences never increase along the primary result followed by the alternatives,
  and there are at most three alternatives.
\<close>

theorem C5_alternatives_ordered:
  assumes "trim w \<noteq> []"
  shows "\<exists>r cs. analyze (JSString w) options = Inr r
                \<and> map confidence (r # alternatives r) = map Some cs
                \<and> sorted_wrt (\<lambda>a b. a \<ge> b) cs
                \<and> length (alternatives r) \<le> 3"
proof -
  define cw where "cw = trim w"
  from assms have "w \<noteq> []" using trim_Nil by auto
  with assms have a: "analyze (JSString w) options = Inr (analyzeClean cw options)"
    by (simp add: analyze_def cw_def)
  from analyzeClean_cases [of cw options]
  have "\<exists>cs. map confidence (analyzeClean cw options # alternatives (analyzeClean cw options))
               = map Some cs
             \<and> sorted_wrt (\<lambda>a b. a \<ge> b) cs
             \<and> length (alternatives (analyzeClean cw options)) \<le> 3"
  proof
    assume u: "analyzeClean cw options = createUnknownWordResult cw"
    have "map confidence (createUnknownWordResult cw # alternatives (createUnknownWordResult cw))
            = map Some [0]"
      by (simp add: createUnknownWordResult_def)
    moreover have "sorted_wrt (\<lambda>a b. a \<ge> b) [0::rat]" by simp
    moreover have "length (alternatives (createUnknownWordResult cw)) \<le> 3"
      by (simp add: createUnknownWordResult_def)
    ultimately show ?thesis unfolding u by blast
  next
    assume "\<exists>bestMatch rest morph inst.
         sortByConfidence (collectMatches cw) = bestMatch # rest
         \<and> extractMorphology (fst bestMatch) cw options = Inr morph
         \<and> createWord (tagString (analyzerPartOfSpeech (fst bestMatch))) cw = Inr inst
         \<and> analyzeClean cw options =
             AnalysisResult cw (analyzerPartOfSpeech (fst bestMatch)) (Some morph) (Some inst)
               (Some (snd bestMatch)) (getAlternatives rest cw options) (name (fst bestMatch))"
    then obtain bestMatch rest morph inst where
      s: "sortByConfidence (collectMatches cw) = bestMatch # rest" and
      c: "createWord (tagString (analyzerPartOfSpeech (fst bestMatch))) cw = Inr inst" and
      r: "analyzeClean cw options =
             AnalysisResult cw (analyzerPartOfSpeech (fst bestMatch)) (Some morph) (Some inst)
               (Some (snd bestMatch)) (getAlternatives rest cw options) (name (fst bestMatch))"
      by blast
    from c have na: "cw \<noteq> lit ''Article''" using createWord_Article by auto
    have "set rest \<subseteq> set (sortByConfidence (collectMatches cw))" using s by auto
    then have "set rest \<subseteq> set (collectMatches cw)" by (simp only: set_sortByConfidence)
    then have m: "\<forall>m\<in>set rest. match (fst m) cw" using collectMatches_member by blast
    have alt: "map confidence (getAlternatives rest cw options)
                 = map (\<lambda>m. Some (snd m)) (take 3 rest)"
      using na m by (rule getAlternatives_confidence)
    have "sorted_wrt (\<lambda>a b. a \<ge> b) (map snd (bestMatch # rest))"
      using sortByConfidence_descending [of "collectMatches cw"] s by simp
    then have "sorted_wrt (\<lambda>a b. a \<ge> b) (map snd (take 4 (bestMatch # rest)))"
      unfolding take_map [symmetric] by (rule sorted_wrt_take)
    then have so: "sorted_wrt (\<lambda>a b. a \<ge> b) (snd bestMatch # map snd (take 3 rest))"
      by (simp add: numeral_eq_Suc)
    have "map confidence (analyzeClean cw options # alternatives (analyzeClean cw options))
            = map Some (snd bestMatch # map snd (take 3 rest))"
      by (simp add: r alt)
    moreover have "length (alternatives (analyzeClean cw options)) \<le> 3"
      by (simp add: r getAlternatives_def)
    ultimately show ?thesis using so by blast
  qed
  with a show ?thesis by blast
qed

theorem C5_alternatives_ordered_witness:
  "trim (lit ''kio'') \<noteq> []
   \<and> (\<exists>r cs. analyze (JSString (lit ''kio'')) getDefaultOptions = Inr r
              \<and> map confidence (r # alternatives r) = map Some cs
              \<and> sorted_wrt (\<lambda>a b. a \<ge> b) cs
              \<and> length (alternatives r) \<le> 3)"
proof -
  have n: "trim (lit ''kio'') \<noteq> []" unfolding trim_kio by (simp add: chars)
  show ?thesis using C5_alternatives_ordered [OF n, of getDefaultOptions] n by blast
qed

section \<open>Verbs\<close>

lemmas verbs =
  Verb_extractMorphology_def Base_extractMorphology_def getDefaultOptions_def
  getEmptyMorphology_def Verb_checkPlural_def Verb_checkAccusative_def isParticiple_def
  extractTense_def extractMood_def Verb_extractRoot_def VERB_ENDINGS_def PARTICIPLE_ENDINGS_def
  ALL_ENDINGS_def

lemma matches_kuras:
  "filter (\<lambda>a. match a (lit ''kuras'')) ALL_MORPHOLOGICAL_ANALYZERS = [VerbMorphologicalAnalyzer]"
  by (simp add: ALL_MORPHOLOGICAL_ANALYZERS_def chars strs matchers)

lemma confidence_kuras: "calculateConfidence VerbMorphologicalAnalyzer (lit ''kuras'') = 4 / 5"
  by (simp add: confidence_Verb chars strs)

lemma morphology_kuras:
  "Verb_extractMorphology (lit ''kuras'') getDefaultOptions =
     Inr \<lparr>isPlural = False, isAccusative = False, tense = Some present, mood = Some indicative,
          agreement = None, root = Some (lit ''kur'')\<rparr>"
  by (simp add: verbs matchers chars strs)

lemma createWord_kuras:
  "createWord (lit ''Verb'') (lit ''kuras'') = Inr (UndefinedWord (lit ''Verb''))"
  by (simp add: createWord_def chars)

lemma analyze_kuras:
  "analyzeWord (JSString (lit ''kuras'')) =
     Inr (AnalysisResult (lit ''kuras'') Verb
            (Some \<lparr>isPlural = False, isAccusative = False, tense = Some present,
                   mood = Some indicative, agreement = None, root = Some (lit ''kur'')\<rparr>)
            (Some (UndefinedWord (lit ''Verb''))) (Some (4 / 5)) [] ''VerbMorphologicalAnalyzer'')"
proof -
  have n: "lit ''kuras'' \<noteq> []" by (simp add: chars)
  show ?thesis
    unfolding analyzeWord_def analyze_def
    by (simp add: n trim_kuras analyzeClean_def collectMatches_def matches_kuras
        confidence_kuras sortByConfidence_def morphology_kuras createWord_kuras
        getAlternatives_def Let_def)
qed

lemma matches_kuris:
  "filter (\<lambda>a. match a (lit ''kuris'')) ALL_MORPHOLOGICAL_ANALYZERS = [VerbMorphologicalAnalyzer]"
  by (simp add: ALL_MORPHOLOGICAL_ANALYZERS_def chars strs matchers)

lemma confidence_kuris: "calculateConfidence VerbMorphologicalAnalyzer (lit ''kuris'') = 4 / 5"
  by (simp add: confidence_Verb chars strs)

lemma morphology_kuris:
  "Verb_extractMorphology (lit ''kuris'') getDefaultOptions =
     Inr \<lparr>isPlural = False, isAccusative = False, tense = Some past, mood = Some indicative,
          agreement = None, root = Some (lit ''kur'')\<rparr>"
  by (simp add: verbs matchers chars strs)

lemma createWord_kuris:
  "createWord (lit ''Verb'') (lit ''kuris'') = Inr (UndefinedWord (lit ''Verb''))"
  by (simp add: createWord_def chars)

lemma trim_kuris: "trim (lit ''kuris'') = lit ''kuris''"
  by (simp add: chars strs)

lemma analyze_kuris:
  "analyzeWord (JSString (lit ''kuris'')) =
     Inr (AnalysisResult (lit ''kuris'') Verb
            (Some \<lparr>isPlural = False, isAccusative = False, tense = Some past,
                   mood = Some indicative, agreement = None, root = Some (lit ''kur'')\<rparr>)
            (Some (UndefinedWord (lit ''Verb''))) (Some (4 / 5)) [] ''VerbMorphologicalAnalyzer'')"
proof -
  have n: "lit ''kuris'' \<noteq> []" by (simp add: chars)
  show ?thesis
    unfolding analyzeWord_def analyze_def
    by (simp add: n trim_kuris analyzeClean_def collectMatches_def matches_kuris
        confidence_kuris sortByConfidence_def morphology_kuris createWord_kuris
        getAlternatives_def Let_def)
qed

lemma matches_kuros:
  "filter (\<lambda>a. match a (lit ''kuros'')) ALL_MORPHOLOGICAL_ANALYZERS = [VerbMorphologicalAnalyzer]"
  by (simp add: ALL_MORPHOLOGICAL_ANALYZERS_def chars strs matchers)

lemma confidence_kuros: "calculateConfidence VerbMorphologicalAnalyzer (lit ''kuros'') = 4 / 5"
  by (simp add: confidence_Verb chars strs)

lemma morphology_kuros:
  "Verb_extractMorphology (lit ''kuros'') getDefaultOptions =
     Inr \<lparr>isPlural = False, isAccusative = False, tense = Some future, mood = Some indicative,
          agreement = None, root = Some (lit ''kur'')\<rparr>"
  by (simp add: verbs matchers chars strs)

lemma createWord_kuros:
  "createWord (lit ''Verb'') (lit ''kuros'') = Inr (UndefinedWord (lit ''Verb''))"
  by (simp add: createWord_def chars)

lemma trim_kuros: "trim (lit ''kuros'') = lit ''kuros''"
  by (simp add: chars strs)

lemma analyze_kuros:
  "analyzeWord (JSString (lit ''kuros'')) =
     Inr (AnalysisResult (lit ''kuros'') Verb
            (Some \<lparr>isPlural = False, isAccusative = False, tense = Some future,
                   mood = Some indicative, agreement = None, root = Some (lit ''kur'')\<rparr>)
            (Some (UndefinedWord (lit ''Verb''))) (Some (4 / 5)) [] ''VerbMorphologicalAnalyzer'')"
proof -
  have n: "lit ''kuros'' \<noteq> []" by (simp add: chars)
  show ?thesis
    unfolding analyzeWord_def analyze_def
    by (simp add: n trim_kuros analyzeClean_def collectMatches_def matches_kuros
        confidence_kuros sortByConfidence_def morphology_kuros createWord_kuros
        getAlternatives_def Let_def)
qed

lemma matches_kurus:
  "filter (\<lambda>a. match a (lit ''kurus'')) ALL_MORPHOLOGICAL_ANALYZERS = [VerbMorphologicalAnalyzer]"
  by (simp add: ALL_MORPHOLOGICAL_ANALYZERS_def chars strs matchers)

lemma confidence_kurus: "calculateConfidence VerbMorphologicalAnalyzer (lit ''kurus'') = 4 / 5"
  by (simp add: confidence_Verb chars strs)

lemma morphology_kurus:
  "Verb_extractMorphology (lit ''kurus'') getDefaultOptions =
     Inr \<lparr>isPlural = False, isAccusative = False, tense = Some conditional_tense, mood = Some conditional,
          agreement = None, root = Some (lit ''kur'')\<rparr>"
  by (simp add: verbs matchers chars strs)

lemma createWord_kurus:
  "createWord (lit ''Verb'') (lit ''kurus'') = Inr (UndefinedWord (lit ''Verb''))"
  by (simp add: createWord_def chars)

lemma trim_kurus: "trim (lit ''kurus'') = lit ''kurus''"
  by (simp add: chars strs)

lemma analyze_kurus:
  "analyzeWord (JSString (lit ''kurus'')) =
     Inr (AnalysisResult (lit ''kurus'') Verb
            (Some \<lparr>isPlural = False, isAccusative = False, tense = Some conditional_tense,
                   mood = Some conditional, agreement = None, root = Some (lit ''kur'')\<rparr>)
            (Some (UndefinedWord (lit ''Verb''))) (Some (4 / 5)) [] ''VerbMorphologicalAnalyzer'')"
proof -
  have n: "lit ''kurus'' \<noteq> []" by (simp add: chars)
  show ?thesis
    unfolding analyzeWord_def analyze_def
    by (simp add: n trim_kurus analyzeClean_def collectMatches_def matches_kurus
        confidence_kurus sortByConfidence_def morphology_kurus createWord_kurus
        getAlternatives_def Let_def)
qed

lemma matches_kuru:
  "filter (\<lambda>a. match a (lit ''kuru'')) ALL_MORPHOLOGICAL_ANALYZERS = [VerbMorphologicalAnalyzer]"
  by (simp add: ALL_MORPHOLOGICAL_ANALYZERS_def chars strs matchers)

lemma confidence_kuru: "calculateConfidence VerbMorphologicalAnalyzer (lit ''kuru'') = 4 / 5"
  by (simp add: confidence_Verb chars strs)

lemma morphology_kuru:
  "Verb_extractMorphology (lit ''kuru'') getDefaultOptions =
     Inr \<lparr>isPlural = False, isAccusative = False, tense = Some present, mood = Some imperative,
          agreement = None, root = Some (lit ''kur'')\<rparr>"
  by (simp add: verbs matchers chars strs)

lemma createWord_kuru:
  "createWord (lit ''Verb'') (lit ''kuru'') = Inr (UndefinedWord (lit ''Verb''))"
  by (simp add: createWord_def chars)

lemma trim_kuru: "trim (lit ''kuru'') = lit ''kuru''"
  by (simp add: chars strs)

lemma analyze_kuru:
  "analyzeWord (JSString (lit ''kuru'')) =
     Inr (AnalysisResult (lit ''kuru'') Verb
            (Some \<lparr>isPlural = False, isAccusative = False, tense = Some present,
                   mood = Some imperative, agreement = None, root = Some (lit ''kur'')\<rparr>)
            (Some (UndefinedWord (lit ''Verb''))) (Some (4 / 5)) [] ''VerbMorphologicalAnalyzer'')"
proof -
  have n: "lit ''kuru'' \<noteq> []" by (simp add: chars)
  show ?thesis
    unfolding analyzeWord_def analyze_def
    by (simp add: n trim_kuru analyzeClean_def collectMatches_def matches_kuru
        confidence_kuru sortByConfidence_def morphology_kuru createWord_kuru
        getAlternatives_def Let_def)
qed

lemma matches_kuri:
  "filter (\<lambda>a. match a (lit ''kuri'')) ALL_MORPHOLOGICAL_ANALYZERS = [VerbMorphologicalAnalyzer]"
  by (simp add: ALL_MORPHOLOGICAL_ANALYZERS_def chars strs matchers)

lemma confidence_kuri: "calculateConfidence VerbMorphologicalAnalyzer (lit ''kuri'') = 4 / 5"
  by (simp add: confidence_Verb chars strs)

lemma morphology_kuri:
  "Verb_extractMorphology (lit ''kuri'') getDefaultOptions =
     Inr \<lparr>isPlural = False, isAccusative = False, tense = Some infinitive_tense, mood = Some infinitive,
          agreement = None, root = Some (lit ''kur'')\<rparr>"
  by (simp add: verbs matchers chars strs)

lemma createWord_kuri:
  "createWord (lit ''Verb'') (lit ''kuri'') = Inr (UndefinedWord (lit ''Verb''))"
  by (simp add: createWord_def chars)

lemma trim_kuri: "trim (lit ''kuri'') = lit ''kuri''"
  by (simp add: chars strs)

lemma analyze_kuri:
  "analyzeWord (JSString (lit ''kuri'')) =
     Inr (AnalysisResult (lit ''kuri'') Verb
            (Some \<lparr>isPlural = False, isAccusative = False, tense = Some infinitive_tense,
                   mood = Some infinitive, agreement = None, root = Some (lit ''kur'')\<rparr>)
            (Some (UndefinedWord (lit ''Verb''))) (Some (4 / 5)) [] ''VerbMorphologicalAnalyzer'')"
proof -
  have n: "lit ''kuri'' \<noteq> []" by (simp add: chars)
  show ?thesis
    unfolding analyzeWord_def analyze_def
    by (simp add: n trim_kuri analyzeClean_def collectMatches_def matches_kuri
        confidence_kuri sortByConfidence_def morphology_kuri createWord_kuri
        getAlternatives_def Let_def)
qed

text \<open>
  C2. \<open>analyzeWord\<close> on "kuras" gives a verb with root "kur" and the present tense; on
  "kuris" the past tense, on "kuros" the future tense, on "kurus" the conditional mood,
  on "kuru" the imperative mood and on "kuri" the infinitive mood, each time a verb
  with root "kur".
\<close>

theorem C2_verb_endings:
  "(\<exists>r m. analyzeWord (JSString (lit ''kuras'')) = Inr r \<and> partOfSpeech r = Verb
          \<and> morphology r = Some m \<and> root m = Some (lit ''kur'') \<and> tense m = Some present)
   \<and> (\<exists>r m. analyzeWord (JSString (lit ''kuris'')) = Inr r \<and> partOfSpeech r = Verb
          \<and> morphology r = Some m \<and> root m = Some (lit ''kur'') \<and> tense m = Some past)
   \<and> (\<exists>r m. analyzeWord (JSString (lit ''kuros'')) = Inr r \<and> partOfSpeech r = Verb
          \<and> morphology r = Some m \<and> root m = Some (lit ''kur'') \<and> tense m = Some future)
   \<and> (\<exists>r m. analyzeWord (JSString (lit ''kurus'')) = Inr r \<and> partOfSpeech r = Verb
          \<and> morphology r = Some m \<and> root m = Some (lit ''kur'') \<and> mood m = Some conditional)
   \<and> (\<exists>r m. analyzeWord (JSString (lit ''kuru'')) = Inr r \<and> partOfSpeech r = Verb
          \<and> morphology r = Some m \<and> root m = Some (lit ''kur'') \<and> mood m = Some imperative)
   \<and> (\<exists>r m. analyzeWord (JSString (lit ''kuri'')) = Inr r \<and> partOfSpeech r = Verb
          \<and> morphology r = Some m \<and> root m = Some (lit ''kur'') \<and> mood m = Some infinitive)"
  by (simp add: analyze_kuras analyze_kuris analyze_kuros analyze_kurus analyze_kuru analyze_kuri)

section \<open>The article\<close>

lemma matches_la:
  "filter (\<lambda>a. match a (lit ''la'')) ALL_MORPHOLOGICAL_ANALYZERS = [ArticleMorphologicalAnalyzer]"
  by (simp add: ALL_MORPHOLOGICAL_ANALYZERS_def chars strs matchers)

lemma confidence_la: "calculateConfidence ArticleMorphologicalAnalyzer (lit ''la'') = 1"
  by (simp add: confidence_Article chars)

lemma morphology_la:
  "Article_extractMorphology (lit ''la'') getDefaultOptions =
     Inr \<lparr>isPlural = False, isAccusative = False, tense = None, mood = None,
          agreement = None, root = Some (lit ''la'')\<rparr>"
  by (simp add: Article_extractMorphology_def Base_extractMorphology_def getDefaultOptions_def
      getEmptyMorphology_def Article_match_def chars)

lemma createWord_la:
  "createWord (lit ''Article'') (lit ''la'') = Inr (UndefinedWord (lit ''Article''))"
  by (simp add: createWord_def chars)

lemma trim_la: "trim (lit ''la'') = lit ''la''"
  by (simp add: chars strs)

lemma analyze_la:
  "analyzeWord (JSString (lit ''la'')) =
     Inr (AnalysisResult (lit ''la'') Article
            (Some \<lparr>isPlural = False, isAccusative = False, tense = None, mood = None,
                   agreement = None, root = Some (lit ''la'')\<rparr>)
            (Some (UndefinedWord (lit ''Article''))) (Some 1) []
            ''ArticleMorphologicalAnalyzer'')"
proof -
  have n: "lit ''la'' \<noteq> []" by (simp add: chars)
  show ?thesis
    unfolding analyzeWord_def analyze_def
    by (simp add: n trim_la analyzeClean_def collectMatches_def matches_la
        confidence_la sortByConfidence_def morphology_la createWord_la
        getAlternatives_def Let_def)
qed

lemma matches_La_cap:
  "filter (\<lambda>a. match a (lit ''La'')) ALL_MORPHOLOGICAL_ANALYZERS = [ArticleMorphologicalAnalyzer]"
  by (simp add: ALL_MORPHOLOGICAL_ANALYZERS_def chars strs matchers)

lemma confidence_La_cap: "calculateConfidence ArticleMorphologicalAnalyzer (lit ''La'') = 1"
  by (simp add: confidence_Article chars)

lemma morphology_La_cap:
  "Article_extractMorphology (lit ''La'') getDefaultOptions =
     Inr \<lparr>isPlural = False, isAccusative = False, tense = None, mood = None,
          agreement = None, root = Some (lit ''la'')\<rparr>"
  by (simp add: Article_extractMorphology_def Base_extractMorphology_def getDefaultOptions_def
      getEmptyMorphology_def Article_match_def chars)

lemma createWord_La_cap:
  "createWord (lit ''Article'') (lit ''La'') = Inr (UndefinedWord (lit ''Article''))"
  by (simp add: createWord_def chars)

lemma trim_La_cap: "trim (lit ''La'') = lit ''La''"
  by (simp add: chars strs)

lemma analyze_La_cap:
  "analyzeWord (JSString (lit ''La'')) =
     Inr (AnalysisResult (lit ''La'') Article
            (Some \<lparr>isPlural = False, isAccusative = False, tense = None, mood = None,
                   agreement = None, root = Some (lit ''la'')\<rparr>)
            (Some (UndefinedWord (lit ''Article''))) (Some 1) []
            ''ArticleMorphologicalAnalyzer'')"
proof -
  have n: "lit ''La'' \<noteq> []" by (simp add: chars)
  show ?thesis
    unfolding analyzeWord_def analyze_def
    by (simp add: n trim_La_cap analyzeClean_def collectMatches_def matches_La_cap
        confidence_La_cap sortByConfidence_def morphology_La_cap createWord_La_cap
        getAlternatives_def Let_def)
qed

lemma matches_lA_cap:
  "filter (\<lambda>a. match a (lit ''lA'')) ALL_MORPHOLOGICAL_ANALYZERS = [ArticleMorphologicalAnalyzer]"
  by (simp add: ALL_MORPHOLOGICAL_ANALYZERS_def chars strs matchers)

lemma confidence_lA_cap: "calculateConfidence ArticleMorphologicalAnalyzer (lit ''lA'') = 1"
  by (simp add: confidence_Article chars)

lemma morphology_lA_cap:
  "Article_extractMorphology (lit ''lA'') getDefaultOptions =
     Inr \<lparr>isPlural = False, isAccusative = False, tense = None, mood = None,
          agreement = None, root = Some (lit ''la'')\<rparr>"
  by (simp add: Article_extractMorphology_def Base_extractMorphology_def getDefaultOptions_def
      getEmptyMorphology_def Article_match_def chars)

lemma createWord_lA_cap:
  "createWord (lit ''Article'') (lit ''lA'') = Inr (UndefinedWord (lit ''Article''))"
  by (simp add: createWord_def chars)

lemma trim_lA_cap: "trim (lit ''lA'') = lit ''lA''"
  by (simp add: chars strs)

lemma analyze_lA_cap:
  "analyzeWord (JSString (lit ''lA'')) =
     Inr (AnalysisResult (lit ''lA'') Article
            (Some \<lparr>isPlural = False, isAccusative = False, tense = None, mood = None,
                   agreement = None, root = Some (lit ''la'')\<rparr>)
            (Some (UndefinedWord (lit ''Article''))) (Some 1) []
            ''ArticleMorphologicalAnalyzer'')"
proof -
  have n: "lit ''lA'' \<noteq> []" by (simp add: chars)
  show ?thesis
    unfolding analyzeWord_def analyze_def
    by (simp add: n trim_lA_cap analyzeClean_def collectMatches_def matches_lA_cap
        confidence_lA_cap sortByConfidence_def morphology_lA_cap createWord_lA_cap
        getAlternatives_def Let_def)
qed

lemma matches_LA_caps:
  "filter (\<lambda>a. match a (lit ''LA'')) ALL_MORPHOLOGICAL_ANALYZERS = [ArticleMorphologicalAnalyzer]"
  by (simp add: ALL_MORPHOLOGICAL_ANALYZERS_def chars strs matchers)

lemma confidence_LA_caps: "calculateConfidence ArticleMorphologicalAnalyzer (lit ''LA'') = 1"
  by (simp add: confidence_Article chars)

lemma morphology_LA_caps:
  "Article_extractMorphology (lit ''LA'') getDefaultOptions =
     Inr \<lparr>isPlural = False, isAccusative = False, tense = None, mood = None,
          agreement = None, root = Some (lit ''la'')\<rparr>"
  by (simp add: Article_extractMorphology_def Base_extractMorphology_def getDefaultOptions_def
      getEmptyMorphology_def Article_match_def chars)

lemma createWord_LA_caps:
  "createWord (lit ''Article'') (lit ''LA'') = Inr (UndefinedWord (lit ''Article''))"
  by (simp add: createWord_def chars)

lemma trim_LA_caps: "trim (lit ''LA'') = lit ''LA''"
  by (simp add: chars strs)

lemma analyze_LA_caps:
  "analyzeWord (JSString (lit ''LA'')) =
     Inr (AnalysisResult (lit ''LA'') Article
            (Some \<lparr>isPlural = False, isAccusative = False, tense = None, mood = None,
                   agreement = None, root = Some (lit ''la'')\<rparr>)
            (Some (UndefinedWord (lit ''Article''))) (Some 1) []
            ''ArticleMorphologicalAnalyzer'')"
proof -
  have n: "lit ''LA'' \<noteq> []" by (simp add: chars)
  show ?thesis
    unfolding analyzeWord_def analyze_def
    by (simp add: n trim_LA_caps analyzeClean_def collectMatches_def matches_LA_caps
        confidence_LA_caps sortByConfidence_def morphology_LA_caps createWord_LA_caps
        getAlternatives_def Let_def)
qed

text \<open>
  C3. \<open>analyzeWord\<close> on "la", in each of its four letter cases, gives the article with
  confidence exactly 1: the override of the base score for the article.
\<close>

theorem C3_article_la:
  "(\<exists>r. analyzeWord (JSString (lit ''la'')) = Inr r \<and> partOfSpeech r = Article
        \<and> confidence r = Some 1)
   \<and> (\<exists>r. analyzeWord (JSString (lit ''La'')) = Inr r \<and> partOfSpeech r = Article
        \<and> confidence r = Some 1)
   \<and> (\<exists>r. analyzeWord (JSString (lit ''lA'')) = Inr r \<and> partOfSpeech r = Article
        \<and> confidence r = Some 1)
   \<and> (\<exists>r. analyzeWord (JSString (lit ''LA'')) = Inr r \<and> partOfSpeech r = Article
        \<and> confidence r = Some 1)"
  by (simp add: analyze_la analyze_La_cap analyze_lA_cap analyze_LA_caps)

section \<open>Nouns\<close>

lemma endsWith_append: "length t \<le> length s \<Longrightarrow> endsWith (r @ s) t = endsWith s t"
  by (simp add: endsWith_def)

lemma sliceEnd_append: "n \<le> length s \<Longrightarrow> sliceEnd (r @ s) n = r @ sliceEnd s n"
  by (simp add: sliceEnd_def)

lemma toLowerCase_append: "toLowerCase (a @ b) = toLowerCase a @ toLowerCase b"
  by (simp add: toLowerCase_def)

lemma length_lowerUnit_letter: "isLetter c \<Longrightarrow> length (lowerUnit c) = 1"
  by (auto simp: isLetter_def lowerUnit_def isAsciiLower_def isAsciiUpper_def
      esperantoLower_def esperantoUpper_def)

lemma length_toLowerCase_letters: "list_all isLetter r \<Longrightarrow> length (toLowerCase r) = length r"
  by (induction r) (simp_all add: toLowerCase_def length_lowerUnit_letter)

lemma length_lowerUnit_pos: "1 \<le> length (lowerUnit c)"
  by (simp add: lowerUnit_def)

lemma length_toLowerCase_ge: "length w \<le> length (toLowerCase w)"
proof (induction w)
  case Nil
  then show ?case by (simp add: toLowerCase_def)
next
  case (Cons c w)
  then show ?case using length_lowerUnit_pos [of c] by (simp add: toLowerCase_def)
qed

lemma nounEnding_cases:
  "nounEnding pl acc \<in> set (withJN (lit ''o''))"
  by (cases pl; cases acc) (simp_all add: nounEnding_def withJN_def jn_def chars)

lemma nounEnding_lower: "toLowerCase (nounEnding pl acc) = nounEnding pl acc"
  by (cases pl; cases acc) (simp_all add: nounEnding_def chars)

lemma lettersThen_append:
  assumes "s \<in> set sufs" and "n \<le> length r" and "list_all isLetter r"
  shows "lettersThen n sufs (r @ s)"
proof -
  have "endsWith (r @ s) s \<and> n \<le> length (r @ s) - length s
        \<and> list_all isLetter (sliceEnd (r @ s) (length s))"
    using assms by (simp add: endsWith_def sliceEnd_def)
  with assms(1) show ?thesis unfolding lettersThen_def list_ex_iff by blast
qed

lemma nounForm_match:
  assumes "2 \<le> length r" and "list_all isLetter r"
  shows "Noun_match (nounForm r pl acc)" and "lettersThen 1 (withJN (lit ''o'')) (nounForm r pl acc)"
proof -
  have e: "nounEnding pl acc \<in> set (map (\<lambda>e. lit ''o'' @ e) jn)"
    using nounEnding_cases [of pl acc] by (simp add: withJN_def)
  show "Noun_match (nounForm r pl acc)"
    unfolding Noun_match_def nounForm_def using e assms by (rule lettersThen_append)
  have "1 \<le> length r" using assms(1) by simp
  with nounEnding_cases [of pl acc]
  show "lettersThen 1 (withJN (lit ''o'')) (nounForm r pl acc)"
    unfolding nounForm_def using assms(2) by (rule lettersThen_append)
qed

lemma nounForm_confidence:
  assumes "2 \<le> length r" and "list_all isLetter r"
  shows "calculateConfidence NounMorphologicalAnalyzer (nounForm r pl acc) =
           (if length (nounForm r pl acc) > 5 then 1 else 4 / 5)"
  using nounForm_match(2) [OF assms, of pl acc] by (simp add: confidence_Noun)

lemma nounForm_nounShaped:
  assumes "2 \<le> length r" and "list_all isLetter r"
  shows "nounShaped (toLowerCase (nounForm r pl acc))"
proof -
  have l: "toLowerCase (nounForm r pl acc) = toLowerCase r @ nounEnding pl acc"
    by (simp add: nounForm_def toLowerCase_append nounEnding_lower)
  have "endsWith (toLowerCase r @ nounEnding pl acc) (nounEnding pl acc)
        \<and> 2 + length (nounEnding pl acc) \<le> length (toLowerCase r @ nounEnding pl acc)"
    using assms by (simp add: endsWith_def length_toLowerCase_letters)
  with nounEnding_cases [of pl acc] show ?thesis
    unfolding nounShaped_def list_ex_iff l by blast
qed

lemma basic_nounShaped_all:
  "list_all (\<lambda>x. nounShaped x \<longrightarrow> 5 < length x) BASIC_NUMBERS"
  by (simp add: BASIC_NUMBERS_def nounShaped_def withJN_def jn_def endsWith_def chars)

lemma basic_nounShaped:
  "x \<in> set BASIC_NUMBERS \<Longrightarrow> nounShaped x \<Longrightarrow> 5 < length x"
  using basic_nounShaped_all by (simp add: list_all_iff)

lemma correlative_nounShaped_all:
  "list_all (\<lambda>x. nounShaped x \<longrightarrow> x \<in> set nounShapedCorrelatives) correlativePronouns"
  by (simp add: correlativePronouns_def nounShapedCorrelatives_def nounShaped_def withJN_def
      jn_def endsWith_def chars)

lemma correlative_nounShaped:
  "x \<in> set correlativePronouns \<Longrightarrow> nounShaped x \<Longrightarrow> x \<in> set nounShapedCorrelatives"
  using correlative_nounShaped_all by (simp add: list_all_iff)

lemma insort_key_head:
  "\<forall>y\<in>set ys. f x \<le> f y \<Longrightarrow> insort_key f x ys = x # ys"
  by (cases ys) simp_all

lemma sort_key_head:
  assumes "\<forall>y\<in>set ys. f x \<le> f y"
  shows "sort_key f (x # ys) = x # sort_key f ys"
proof -
  have "\<forall>y\<in>set (sort_key f ys). f x \<le> f y" using assms by simp
  then show ?thesis by (simp add: insort_key_head)
qed

lemma nounForm_not_la:
  assumes "2 \<le> length r"
  shows "toLowerCase (nounForm r pl acc) \<noteq> lit ''la''"
proof
  assume "toLowerCase (nounForm r pl acc) = lit ''la''"
  then have "length (toLowerCase (nounForm r pl acc)) = 2" by (simp add: chars)
  moreover have "3 \<le> length (nounForm r pl acc)"
    using assms by (simp add: nounForm_def nounEnding_def chars)
  ultimately show False using length_toLowerCase_ge [of "nounForm r pl acc"] by simp
qed

lemma nounForm_outranks:
  assumes "2 \<le> length r" and "list_all isLetter r"
    and "toLowerCase (nounForm r pl acc) \<notin> set nounShapedCorrelatives"
  shows "calculateConfidence a (nounForm r pl acc)
           \<le> calculateConfidence NounMorphologicalAnalyzer (nounForm r pl acc)"
proof -
  define w where "w = nounForm r pl acc"
  have n: "calculateConfidence NounMorphologicalAnalyzer w = (if length w > 5 then 1 else 4 / 5)"
    unfolding w_def using assms(1,2) by (rule nounForm_confidence)
  have sh: "nounShaped (toLowerCase w)"
    unfolding w_def using assms(1,2) by (rule nounForm_nounShaped)
  have la: "toLowerCase w \<noteq> lit ''la''" unfolding w_def using assms(1) by (rule nounForm_not_la)
  have co: "toLowerCase w \<notin> set correlativePronouns"
    using correlative_nounShaped [OF _ sh] assms(3) w_def by blast
  have ba: "toLowerCase w \<in> set BASIC_NUMBERS \<Longrightarrow> 5 < length w"
  proof -
    assume "toLowerCase w \<in> set BASIC_NUMBERS"
    then have "5 < length (toLowerCase w)" using sh by (rule basic_nounShaped)
    moreover have "length (toLowerCase w) = length w"
    proof -
      have "list_all isLetter (nounEnding pl acc)"
        by (cases pl; cases acc) (simp_all add: nounEnding_def chars)
      then have "list_all isLetter w" using assms(2) by (simp add: w_def nounForm_def)
      then show ?thesis by (rule length_toLowerCase_letters)
    qed
    ultimately show ?thesis by simp
  qed
  have "calculateConfidence a w \<le> calculateConfidence NounMorphologicalAnalyzer w"
  proof (cases a)
    case NounMorphologicalAnalyzer
    then show ?thesis by simp
  next
    case VerbMorphologicalAnalyzer
    then show ?thesis unfolding n by (simp add: confidence_Verb)
  next
    case AdjectiveMorphologicalAnalyzer
    then show ?thesis unfolding n by (simp add: confidence_Adjective)
  next
    case AdverbMorphologicalAnalyzer
    then show ?thesis unfolding n by (simp add: confidence_Adverb)
  next
    case ArticleMorphologicalAnalyzer
    then show ?thesis unfolding n using la by (simp add: confidence_Article)
  next
    case ConjunctionMorphologicalAnalyzer
    then show ?thesis unfolding n by (simp add: confidence_Conjunction)
  next
    case InterjectionMorphologicalAnalyzer
    then show ?thesis unfolding n by (simp add: confidence_Interjection)
  next
    case NumeralMorphologicalAnalyzer
    then show ?thesis unfolding n using ba by (simp add: confidence_Numeral)
  next
    case PrepositionMorphologicalAnalyzer
    then show ?thesis unfolding n by (simp add: confidence_Preposition)
  next
    case PronounMorphologicalAnalyzer
    then show ?thesis unfolding n using co by (simp add: confidence_Pronoun)
  qed
  then show ?thesis by (simp add: w_def)
qed

lemma nounForm_sorted_head:
  assumes "2 \<le> length r" and "list_all isLetter r"
    and "toLowerCase (nounForm r pl acc) \<notin> set nounShapedCorrelatives"
  shows "\<exists>rest. sortByConfidence (collectMatches (nounForm r pl acc)) =
           (NounMorphologicalAnalyzer,
            calculateConfidence NounMorphologicalAnalyzer (nounForm r pl acc)) # rest"
proof -
  define w where "w = nounForm r pl acc"
  define others where "others =
    map (\<lambda>a. (a, calculateConfidence a w)) (filter (\<lambda>a. match a w) (tl ALL_MORPHOLOGICAL_ANALYZERS))"
  have m: "Noun_match w" unfolding w_def using assms(1,2) by (rule nounForm_match(1))
  have c: "collectMatches w = (NounMorphologicalAnalyzer, calculateConfidence NounMorphologicalAnalyzer w) # others"
    using m by (simp add: collectMatches_def others_def ALL_MORPHOLOGICAL_ANALYZERS_def)
  have "\<forall>y\<in>set others. - snd (NounMorphologicalAnalyzer, calculateConfidence NounMorphologicalAnalyzer w) \<le> - snd y"
    using nounForm_outranks [OF assms] by (auto simp: others_def w_def)
  then have "sort_key (\<lambda>m. - snd m) ((NounMorphologicalAnalyzer, calculateConfidence NounMorphologicalAnalyzer w) # others)
       = (NounMorphologicalAnalyzer, calculateConfidence NounMorphologicalAnalyzer w) # sort_key (\<lambda>m. - snd m) others"
    by (rule sort_key_head)
  then show ?thesis unfolding sortByConfidence_def c w_def [symmetric] by blast
qed

lemma nounForm_morphology:
  "Noun_match (nounForm r pl acc) \<Longrightarrow>
   Noun_extractMorphology (nounForm r pl acc) getDefaultOptions =
     Inr \<lparr>isPlural = pl, isAccusative = acc, tense = None, mood = None, agreement = None,
          root = Some r\<rparr>"
  by (cases pl; cases acc)
    (simp_all add: nounForm_def nounEnding_def Noun_extractMorphology_def Base_extractMorphology_def
      getDefaultOptions_def getEmptyMorphology_def Base_checkPlural_def Base_checkAccusative_def
      Noun_extractRoot_def lit_Nil lit_Cons endsWith_append sliceEnd_append Let_def,
     simp_all add: endsWith_def sliceEnd_def)

lemma letter_not_whitespace: "isLetter c \<Longrightarrow> \<not> isWhiteSpace c"
  by (auto simp: isLetter_def isWhiteSpace_def isAsciiLower_def isAsciiUpper_def
      esperantoLower_def esperantoUpper_def)

lemma trim_id:
  assumes "w \<noteq> []" and "\<not> isWhiteSpace (hd w)" and "\<not> isWhiteSpace (last w)"
  shows "trim w = w"
proof -
  have a: "dropWhile isWhiteSpace w = w" using assms(1,2) by (cases w) simp_all
  have "rev w \<noteq> []" and "\<not> isWhiteSpace (hd (rev w))"
    using assms(1,3) by (simp_all add: hd_rev)
  then have b: "dropWhile isWhiteSpace (rev w) = rev w" by (cases "rev w") simp_all
  show ?thesis unfolding trim_def a b by simp
qed

lemma trim_letters:
  assumes "w \<noteq> []" and "list_all isLetter w"
  shows "trim w = w"
proof -
  have "hd w \<in> set w" and "last w \<in> set w" using assms(1) by simp_all
  then have "isLetter (hd w)" and "isLetter (last w)"
    using assms(2) by (simp_all add: list_all_iff)
  then show ?thesis using assms(1) by (simp add: trim_id letter_not_whitespace)
qed

lemma nounForm_letters:
  "list_all isLetter r \<Longrightarrow> list_all isLetter (nounForm r pl acc)"
  by (cases pl; cases acc) (simp_all add: nounForm_def nounEnding_def chars)

lemma Article_not_noun: "\<not> Noun_match (lit ''Article'')"
  by (simp add: matchers chars strs)

lemma noun_analysis:
  assumes "2 \<le> length r" and "list_all isLetter r"
    and "toLowerCase (nounForm r pl acc) \<notin> set nounShapedCorrelatives"
  shows "\<exists>res m. analyzeWord (JSString (nounForm r pl acc)) = Inr res
                 \<and> partOfSpeech res = Noun \<and> morphology res = Some m
                 \<and> root m = Some r \<and> isPlural m = pl \<and> isAccusative m = acc"
proof -
  define w where "w = nounForm r pl acc"
  have ne: "w \<noteq> []" using assms(1) by (auto simp: w_def nounForm_def)
  have "list_all isLetter w" unfolding w_def using assms(2) by (rule nounForm_letters)
  with ne have t: "trim w = w" by (rule trim_letters)
  have a: "analyzeWord (JSString w) = Inr (analyzeClean w getDefaultOptions)"
    using ne by (simp add: analyzeWord_def analyze_def t)
  have m: "Noun_match w" unfolding w_def using assms(1,2) by (rule nounForm_match(1))
  obtain rest where s: "sortByConfidence (collectMatches w) =
      (NounMorphologicalAnalyzer, calculateConfidence NounMorphologicalAnalyzer w) # rest"
    using nounForm_sorted_head [OF assms] unfolding w_def by blast
  have c: "collectMatches w \<noteq> []"
  proof
    assume "collectMatches w = []"
    then have "sortByConfidence (collectMatches w) = []" by (simp add: sortByConfidence_def)
    with s show False by simp
  qed
  have e: "Noun_extractMorphology w getDefaultOptions =
     Inr \<lparr>isPlural = pl, isAccusative = acc, tense = None, mood = None, agreement = None,
          root = Some r\<rparr>"
    using m unfolding w_def by (rule nounForm_morphology)
  have "w \<noteq> lit ''Article''" using m Article_not_noun by auto
  then obtain inst where i: "createWord (lit ''Noun'') w = Inr inst"
    using createWord_other by blast
  have "analyzeClean w getDefaultOptions =
          AnalysisResult w Noun
            (Some \<lparr>isPlural = pl, isAccusative = acc, tense = None, mood = None, agreement = None,
                   root = Some r\<rparr>)
            (Some inst) (Some (calculateConfidence NounMorphologicalAnalyzer w))
            (getAlternatives rest w getDefaultOptions) (name NounMorphologicalAnalyzer)"
    unfolding analyzeClean_def Let_def using c by (simp add: s e i)
  with a show ?thesis unfolding w_def by simp
qed

lemma lowerUnit_letter: "isLetter c \<Longrightarrow> lowerUnit c = [foldUnit c]"
  by (auto simp: isLetter_def lowerUnit_def foldUnit_def isAsciiLower_def isAsciiUpper_def
      esperantoLower_def esperantoUpper_def)

lemma foldCase_letters: "list_all isLetter w \<Longrightarrow> foldCase w = toLowerCase w"
  by (induction w) (simp_all add: foldCase_def toLowerCase_def lowerUnit_letter)

lemma nounShapedCorrelatives_facts:
  "list_all (\<lambda>x. x \<in> set (concat (map withJN generateCorrelatives))
                 \<and> x \<in> set correlativePronouns \<and> x \<notin> set BASIC_NUMBERS \<and> length x \<le> 5)
     nounShapedCorrelatives"
  by (simp add: nounShapedCorrelatives_def correlativePronouns_def word_lists)

lemma sort_key_last:
  assumes "\<forall>y\<in>set ys. f p < f y"
  shows "sort_key f (ys @ [p]) = p # sort_key f ys"
  using assms
proof (induction ys)
  case Nil
  then show ?case by simp
next
  case (Cons y ys)
  then have "sort_key f (ys @ [p]) = p # sort_key f ys" by simp
  moreover have "\<not> f y \<le> f p" using Cons.prems by auto
  ultimately show ?case by simp
qed

lemma correlative_sorted:
  assumes "2 \<le> length r" and "list_all isLetter r"
    and "toLowerCase (nounForm r pl acc) \<in> set nounShapedCorrelatives"
  shows "\<exists>rest. sortByConfidence (collectMatches (nounForm r pl acc)) =
           (PronounMorphologicalAnalyzer, 9 / 10) # (NounMorphologicalAnalyzer, 4 / 5) # rest"
proof -
  define w where "w = nounForm r pl acc"
  define f :: "Analyzer \<times> rat \<Rightarrow> rat" where "f = (\<lambda>m. - snd m)"
  define mid where "mid =
    map (\<lambda>a. (a, calculateConfidence a w))
      (filter (\<lambda>a. match a w)
        [VerbMorphologicalAnalyzer, AdjectiveMorphologicalAnalyzer, AdverbMorphologicalAnalyzer,
         ArticleMorphologicalAnalyzer, ConjunctionMorphologicalAnalyzer,
         InterjectionMorphologicalAnalyzer, NumeralMorphologicalAnalyzer,
         PrepositionMorphologicalAnalyzer])"
  have lw: "list_all isLetter w" unfolding w_def using assms(2) by (rule nounForm_letters)
  have facts: "toLowerCase w \<in> set (concat (map withJN generateCorrelatives))"
    "toLowerCase w \<in> set correlativePronouns" "toLowerCase w \<notin> set BASIC_NUMBERS"
    "length (toLowerCase w) \<le> 5"
    using nounShapedCorrelatives_facts assms(3) unfolding w_def list_all_iff by blast+
  have len: "length w \<le> 5" using facts(4) length_toLowerCase_letters [OF lw] by simp
  have nm: "Noun_match w" unfolding w_def using assms(1,2) by (rule nounForm_match(1))
  have pm: "Pronoun_match w"
    unfolding Pronoun_match_def Let_def foldCase_letters [OF lw] using facts(1) by blast
  have cn: "calculateConfidence NounMorphologicalAnalyzer w = 4 / 5"
    using nounForm_confidence [OF assms(1,2), of pl acc] len by (simp add: w_def)
  have cp: "calculateConfidence PronounMorphologicalAnalyzer w = 9 / 10"
    using facts(2) by (simp add: confidence_Pronoun)
  have la: "toLowerCase w \<noteq> lit ''la''" unfolding w_def using assms(1) by (rule nounForm_not_la)
  have c: "collectMatches w =
      (NounMorphologicalAnalyzer, 4 / 5) # mid @ [(PronounMorphologicalAnalyzer, 9 / 10)]"
    using nm pm by (simp add: collectMatches_def ALL_MORPHOLOGICAL_ANALYZERS_def mid_def cn cp)
  have m: "\<forall>y\<in>set mid. snd y \<le> 4 / 5"
    using len la facts(3)
    by (auto simp: mid_def confidence_Verb confidence_Adjective confidence_Adverb
        confidence_Article confidence_Conjunction confidence_Interjection confidence_Numeral
        confidence_Preposition)
  have "\<forall>y\<in>set mid. f (PronounMorphologicalAnalyzer, 9 / 10) < f y"
    using m by (auto simp: f_def)
  then have s1: "sort_key f (mid @ [(PronounMorphologicalAnalyzer, 9 / 10)])
      = (PronounMorphologicalAnalyzer, 9 / 10) # sort_key f mid"
    by (rule sort_key_last)
  have "\<forall>y\<in>set (sort_key f mid). f (NounMorphologicalAnalyzer, 4 / 5) \<le> f y"
    using m by (auto simp: f_def)
  then have s2: "insort_key f (NounMorphologicalAnalyzer, 4 / 5) (sort_key f mid)
      = (NounMorphologicalAnalyzer, 4 / 5) # sort_key f mid"
    by (rule insort_key_head)
  have "sort_key f ((NounMorphologicalAnalyzer, 4 / 5) # mid @ [(PronounMorphologicalAnalyzer, 9 / 10)])
      = (PronounMorphologicalAnalyzer, 9 / 10) # (NounMorphologicalAnalyzer, 4 / 5) # sort_key f mid"
    by (simp add: s1 s2) (simp add: f_def)
  then show ?thesis unfolding sortByConfidence_def c w_def [symmetric] f_def by blast
qed

lemma correlative_analysis:
  assumes "2 \<le> length r" and "list_all isLetter r"
    and "toLowerCase (nounForm r pl acc) \<in> set nounShapedCorrelatives"
  shows "\<exists>res alt more m. analyzeWord (JSString (nounForm r pl acc)) = Inr res
           \<and> partOfSpeech res = Pronoun \<and> confidence res = Some (9 / 10)
           \<and> alternatives res = alt # more
           \<and> partOfSpeech alt = Noun \<and> confidence alt = Some (4 / 5)
           \<and> morphology alt = Some m \<and> root m = Some r"
proof -
  define w where "w = nounForm r pl acc"
  have ne: "w \<noteq> []" using assms(1) by (auto simp: w_def nounForm_def)
  have lw: "list_all isLetter w" unfolding w_def using assms(2) by (rule nounForm_letters)
  with ne have t: "trim w = w" by (rule trim_letters)
  have a: "analyzeWord (JSString w) = Inr (analyzeClean w getDefaultOptions)"
    using ne by (simp add: analyzeWord_def analyze_def t)
  have nm: "Noun_match w" unfolding w_def using assms(1,2) by (rule nounForm_match(1))
  obtain rest where s: "sortByConfidence (collectMatches w) =
      (PronounMorphologicalAnalyzer, 9 / 10) # (NounMorphologicalAnalyzer, 4 / 5) # rest"
    using correlative_sorted [OF assms] unfolding w_def by blast
  have c: "collectMatches w \<noteq> []"
  proof
    assume "collectMatches w = []"
    then have "sortByConfidence (collectMatches w) = []" by (simp add: sortByConfidence_def)
    with s show False by simp
  qed
  have "(PronounMorphologicalAnalyzer, 9 / 10) \<in> set (sortByConfidence (collectMatches w))"
    unfolding s by simp
  then have "match PronounMorphologicalAnalyzer w"
    by (auto simp: sortByConfidence_def collectMatches_def)
  then obtain pmorph where pe: "Pronoun_extractMorphology w getDefaultOptions = Inr pmorph"
    using extract_ok [of PronounMorphologicalAnalyzer w getDefaultOptions] by auto
  have e: "Noun_extractMorphology w getDefaultOptions =
     Inr \<lparr>isPlural = pl, isAccusative = acc, tense = None, mood = None, agreement = None,
          root = Some r\<rparr>"
    using nm unfolding w_def by (rule nounForm_morphology)
  have na: "w \<noteq> lit ''Article''" using nm Article_not_noun by auto
  then obtain inst where i: "createWord (lit ''Noun'') w = Inr inst"
    using createWord_other by blast
  from na obtain pinst where pi: "createWord (lit ''Pronoun'') w = Inr pinst"
    using createWord_other by blast
  have g: "getAlternatives ((NounMorphologicalAnalyzer, 4 / 5) # rest) w getDefaultOptions =
          AnalysisResult w Noun
            (Some \<lparr>isPlural = pl, isAccusative = acc, tense = None, mood = None, agreement = None,
                   root = Some r\<rparr>)
            (Some inst) (Some (4 / 5)) [] (name NounMorphologicalAnalyzer)
          # getAlternatives (take 2 rest) w getDefaultOptions"
    unfolding getAlternatives_def Let_def by (simp add: e i)
  have "analyzeClean w getDefaultOptions =
          AnalysisResult w Pronoun (Some pmorph) (Some pinst) (Some (9 / 10))
            (getAlternatives ((NounMorphologicalAnalyzer, 4 / 5) # rest) w getDefaultOptions)
            (name PronounMorphologicalAnalyzer)"
    unfolding analyzeClean_def Let_def using c by (simp add: s pe pi)
  with a g show ?thesis unfolding w_def by simp
qed

lemma domojn_not_correlative:
  "toLowerCase (nounForm (lit ''dom'') True True) \<notin> set nounShapedCorrelatives"
  by (simp add: nounForm_def nounEnding_def nounShapedCorrelatives_def chars)

lemma kio_correlative:
  "toLowerCase (nounForm (lit ''ki'') False False) \<in> set nounShapedCorrelatives"
  by (simp add: nounForm_def nounEnding_def nounShapedCorrelatives_def chars)

text \<open>
  C1, as the code has it. A well-formed noun is a root of at least two letters followed
  by "o", an optional "j" and an optional "n". When its lower-cased form is not one of
  the correlative pronouns of noun shape (kio, tio, U+0109 io, nenio), it is analyzed as
  a noun with that root, plural iff the "j" is there and accusative iff the "n" is
  there. When it is one of the four, the result is the pronoun, with confidence 0.9,
  and the noun analysis with that root, of confidence 0.8, is the first alternative.
\<close>

theorem C1_noun_analysis:
  assumes "2 \<le> length r" and "list_all isLetter r"
  shows "(toLowerCase (nounForm r pl acc) \<notin> set nounShapedCorrelatives \<longrightarrow>
            (\<exists>res m. analyzeWord (JSString (nounForm r pl acc)) = Inr res
                 \<and> partOfSpeech res = Noun \<and> morphology res = Some m
                 \<and> root m = Some r \<and> isPlural m = pl \<and> isAccusative m = acc))
         \<and> (toLowerCase (nounForm r pl acc) \<in> set nounShapedCorrelatives \<longrightarrow>
            (\<exists>res alt more m. analyzeWord (JSString (nounForm r pl acc)) = Inr res
                 \<and> partOfSpeech res = Pronoun \<and> confidence res = Some (9 / 10)
                 \<and> alternatives res = alt # more
                 \<and> partOfSpeech alt = Noun \<and> confidence alt = Some (4 / 5)
                 \<and> morphology alt = Some m \<and> root m = Some r))"
  using noun_analysis [OF assms, of pl acc] correlative_analysis [OF assms, of pl acc]
  by blast

theorem C1_noun_analysis_witness:
  "2 \<le> length (lit ''dom'') \<and> list_all isLetter (lit ''dom'')
   \<and> nounForm (lit ''dom'') True True = lit ''domojn''
   \<and> toLowerCase (lit ''domojn'') \<notin> set nounShapedCorrelatives
   \<and> (\<exists>res m. analyzeWord (JSString (lit ''domojn'')) = Inr res
          \<and> partOfSpeech res = Noun \<and> morphology res = Some m
          \<and> root m = Some (lit ''dom'') \<and> isPlural m = True \<and> isAccusative m = True)
   \<and> 2 \<le> length (lit ''ki'') \<and> list_all isLetter (lit ''ki'')
   \<and> nounForm (lit ''ki'') False False = lit ''kio''
   \<and> toLowerCase (lit ''kio'') \<in> set nounShapedCorrelatives
   \<and> (\<exists>res alt more m. analyzeWord (JSString (lit ''kio'')) = Inr res
          \<and> partOfSpeech res = Pronoun \<and> confidence res = Some (9 / 10)
          \<and> alternatives res = alt # more
          \<and> partOfSpeech alt = Noun \<and> confidence alt = Some (4 / 5)
          \<and> morphology alt = Some m \<and> root m = Some (lit ''ki''))"
proof -
  have l: "2 \<le> length (lit ''dom'')" by (simp add: chars)
  have a: "list_all isLetter (lit ''dom'')" by (simp add: chars)
  have f: "nounForm (lit ''dom'') True True = lit ''domojn''"
    by (simp add: nounForm_def nounEnding_def chars)
  have l2: "2 \<le> length (lit ''ki'')" by (simp add: chars)
  have a2: "list_all isLetter (lit ''ki'')" by (simp add: chars)
  have f2: "nounForm (lit ''ki'') False False = lit ''kio''"
    by (simp add: nounForm_def nounEnding_def chars)
  show ?thesis
    using C1_noun_analysis [OF l a, of True True] C1_noun_analysis [OF l2 a2, of False False]
      l a l2 a2 domojn_not_correlative kio_correlative
    unfolding f f2 by simp
qed

text \<open>
  The claim as stated fails at the root "ki": "kio" is a well-formed noun, and
  \<open>analyzeWord\<close> gives the pronoun, with confidence 0.9, and the noun only as the
  alternative, with confidence 0.8.
\<close>

lemma matches_kio:
  "filter (\<lambda>a. match a (lit ''kio'')) ALL_MORPHOLOGICAL_ANALYZERS =
     [NounMorphologicalAnalyzer, PronounMorphologicalAnalyzer]"
  by (simp add: ALL_MORPHOLOGICAL_ANALYZERS_def chars strs matchers)

lemma confidence_kio:
  "calculateConfidence NounMorphologicalAnalyzer (lit ''kio'') = 4 / 5"
  "calculateConfidence PronounMorphologicalAnalyzer (lit ''kio'') = 9 / 10"
  by (simp_all add: confidence_Noun confidence_Pronoun correlativePronouns_def chars strs)

lemma morphology_kio:
  "Pronoun_extractMorphology (lit ''kio'') getDefaultOptions =
     Inr \<lparr>isPlural = False, isAccusative = False, tense = None, mood = None,
          agreement = None, root = Some (lit ''kio'')\<rparr>"
  "Noun_extractMorphology (lit ''kio'') getDefaultOptions =
     Inr \<lparr>isPlural = False, isAccusative = False, tense = None, mood = None,
          agreement = None, root = Some (lit ''ki'')\<rparr>"
  by (simp_all add: Pronoun_extractMorphology_def Noun_extractMorphology_def
      Base_extractMorphology_def getDefaultOptions_def getEmptyMorphology_def
      Pronoun_checkPlural_def Pronoun_checkAccusative_def Base_checkPlural_def
      Base_checkAccusative_def extractPronounRoot_def pronounRootPatterns_def
      Noun_extractRoot_def matchers chars strs)

lemma createWord_kio:
  "createWord (lit ''Pronoun'') (lit ''kio'') = Inr (UndefinedWord (lit ''Pronoun''))"
  "createWord (lit ''Noun'') (lit ''kio'') = Inr (UndefinedWord (lit ''Noun''))"
  by (simp_all add: createWord_def chars)

lemma analyze_kio:
  "analyzeWord (JSString (lit ''kio'')) =
     Inr (AnalysisResult (lit ''kio'') Pronoun
            (Some \<lparr>isPlural = False, isAccusative = False, tense = None, mood = None,
                   agreement = None, root = Some (lit ''kio'')\<rparr>)
            (Some (UndefinedWord (lit ''Pronoun''))) (Some (9 / 10))
            [AnalysisResult (lit ''kio'') Noun
               (Some \<lparr>isPlural = False, isAccusative = False, tense = None, mood = None,
                      agreement = None, root = Some (lit ''ki'')\<rparr>)
               (Some (UndefinedWord (lit ''Noun''))) (Some (4 / 5)) []
               ''NounMorphologicalAnalyzer'']
            ''PronounMorphologicalAnalyzer'')"
proof -
  have n: "lit ''kio'' \<noteq> []" by (simp add: chars)
  show ?thesis
    unfolding analyzeWord_def analyze_def
    by (simp add: n trim_kio analyzeClean_def collectMatches_def matches_kio confidence_kio
        sortByConfidence_def morphology_kio createWord_kio getAlternatives_def Let_def)
qed

theorem C1_counterexample_kio:
  "2 \<le> length (lit ''ki'') \<and> list_all isLetter (lit ''ki'')
   \<and> nounForm (lit ''ki'') False False = lit ''kio''
   \<and> \<not> (\<exists>res. analyzeWord (JSString (nounForm (lit ''ki'') False False)) = Inr res
             \<and> partOfSpeech res = Noun)"
proof -
  have f: "nounForm (lit ''ki'') False False = lit ''kio''"
    by (simp add: nounForm_def nounEnding_def chars)
  have "2 \<le> length (lit ''ki'') \<and> list_all isLetter (lit ''ki'')" by (simp add: chars)
  then show ?thesis unfolding f by (simp add: analyze_kio)
qed

section \<open>Sentences\<close>

lemma tokenize_Mi_amas_vin:
  "tokenize (lit ''Mi amas vin.'') = [lit ''Mi'', lit ''amas'', lit ''vin'']"
  by (simp add: tokenize_def spacePunctuation_def isPunctuation_def splitWhitespace.simps chars strs)

lemma trim_sentence: "trim (lit ''Mi amas vin.'') = lit ''Mi amas vin.''"
  by (simp add: chars strs)

lemma word_analyzeClean: "word (analyzeClean w options) = w"
  using analyzeClean_cases [of w options] by (auto simp: createUnknownWordResult_def)

lemma analyzeToken_word:
  assumes "trim w \<noteq> []"
  shows "word (analyzeToken inclC False inclM maxAlt False w) = trim w"
proof -
  from assms have "w \<noteq> []" using trim_Nil by auto
  with assms have "analyze (JSString w) getDefaultOptions = Inr (analyzeClean (trim w) getDefaultOptions)"
    by (simp add: analyze_def)
  then show ?thesis by (simp add: analyzeToken_def word_analyzeClean)
qed

text \<open>
  C9, on the code. Without \<open>preserveCase\<close> (the default, false) the \<open>word\<close> of a
  result is the token as it stands in the sentence: for "Mi amas vin." the first word
  is "Mi", which is not its lower-cased form "mi". Only the fallback for a token whose
  analysis throws lower-cases the word.
\<close>

theorem C9_default_keeps_case:
  "\<exists>res. analyzeSentenceDefault (JSString (lit ''Mi amas vin.'')) = Inr res
         \<and> map word (words res) = [lit ''Mi'', lit ''amas'', lit ''vin'']
         \<and> lit ''Mi'' \<noteq> toLowerCase (lit ''Mi'')"
proof -
  have n: "lit ''Mi amas vin.'' \<noteq> []" by (simp add: chars)
  have t: "trim (lit ''Mi'') = lit ''Mi''" "trim (lit ''amas'') = lit ''amas''"
    "trim (lit ''vin'') = lit ''vin''" by (simp_all add: chars strs)
  have e: "lit ''Mi'' \<noteq> []" "lit ''amas'' \<noteq> []" "lit ''vin'' \<noteq> []" by (simp_all add: chars)
  have w: "word (analyzeToken True False True 2 False (lit ''Mi'')) = lit ''Mi''"
    "word (analyzeToken True False True 2 False (lit ''amas'')) = lit ''amas''"
    "word (analyzeToken True False True 2 False (lit ''vin'')) = lit ''vin''"
    using analyzeToken_word [of "lit ''Mi''" True True 2]
      analyzeToken_word [of "lit ''amas''" True True 2]
      analyzeToken_word [of "lit ''vin''" True True 2] t e by simp_all
  have l: "lit ''Mi'' \<noteq> toLowerCase (lit ''Mi'')" by (simp add: chars)
  show ?thesis
    unfolding analyzeSentenceDefault_def analyzeSentence_def
    using n l
    by (simp add: trim_sentence tokenize_Mi_amas_vin defaultSentenceOptions_def optionOr_def w
        Let_def)
qed






















end
